theory Spec2Isabelle
  imports Complex_Main "HOL-Library.Sublist" "HOL-Library.Char_ord" "HOL-Library.List_Lexorder"
    "HOL-Library.Product_Lexorder" "HOL-Library.Log_Nat"
begin

section \<open>Engagement aggregation pipeline\<close>

text \<open>
  The theory embeds the scripts of \<^verbatim>\<open>Engagement Calculate\<close>:
  \<^verbatim>\<open>Engagement_data_1_processor.py\<close> (tag-level rows),
  \<^verbatim>\<open>Engagement_overall_processor.py\<close> (category-level rows) and the frequency
  step of \<^verbatim>\<open>strategic_signal_matrix_X.py\<close> and
  \<^verbatim>\<open>strategic_signal_matrix_truth_media.py\<close>.

  A data frame is the list of its rows, and integer columns are \<open>int\<close>. The floating
  point operations of the interpreter and of numpy are a parameter of every function
  that uses them: the functions say which operation is applied to which operands, and
  the properties hold for every interpretation of the operations. One interpretation,
  IEEE 754 double precision, is defined below and evaluates the examples.
\<close>

subsection \<open>Input rows\<close>

text \<open>One row of \<^verbatim>\<open>Engagement_data_raw.csv\<close>; the \<open>Tag_id\<close> cell is a string.\<close>

record raw_record =
  Tag_id :: string
  Category_id :: string
  Platform :: string
  Likes :: int
  Repost :: int
  Replies :: int

subsection \<open>Python numbers\<close>

text \<open>
  The float operations the scripts use, on a type \<open>'f\<close> of float values:
  the conversion of an integer, \<^verbatim>\<open>a / b\<close> on two integers of the interpreter and
  on two integers one of which is a \<^verbatim>\<open>numpy.int64\<close>, \<^verbatim>\<open>/\<close>, \<^verbatim>\<open>*\<close> and
  \<^verbatim>\<open>+\<close> on floats, the test \<^verbatim>\<open>x > 0\<close>, \<^verbatim>\<open>round(x, 2)\<close> on a float of the
  interpreter and on a \<^verbatim>\<open>numpy.float64\<close> (which has a \<^verbatim>\<open>__round__\<close> of its own),
  \<^verbatim>\<open>round(x)\<close>, and the formats \<^verbatim>\<open>f"{x:.2f}"\<close> and \<^verbatim>\<open>f"{x:,.0f}"\<close>.
\<close>

record 'f float_ops =
  float_of_int :: "int \<Rightarrow> 'f"
  true_div :: "int \<Rightarrow> int \<Rightarrow> 'f"
  np_true_div :: "int \<Rightarrow> int \<Rightarrow> 'f"
  fdiv :: "'f \<Rightarrow> 'f \<Rightarrow> 'f"
  fmul :: "'f \<Rightarrow> 'f \<Rightarrow> 'f"
  fadd :: "'f \<Rightarrow> 'f \<Rightarrow> 'f"
  fpos :: "'f \<Rightarrow> bool"
  round2 :: "'f \<Rightarrow> 'f"
  np_round2 :: "'f \<Rightarrow> 'f"
  round0 :: "'f \<Rightarrow> int"
  fmt2 :: "'f \<Rightarrow> string"
  fmt0 :: "'f \<Rightarrow> string"

text \<open>
  A variable such as \<^verbatim>\<open>average_engagement\<close> holds a float on one branch and the
  integer literal \<^verbatim>\<open>0\<close> on the other. The float is a \<^verbatim>\<open>numpy.float64\<close> when an
  operand of the division is the \<^verbatim>\<open>numpy.int64\<close> that \<^verbatim>\<open>Series.sum()\<close> returns,
  and a float of the interpreter when both operands are integers of the interpreter
  (\<^verbatim>\<open>len(...)\<close>) or the value is a float literal.
\<close>

datatype 'f number = PyInt int | PyFloat 'f | NpFloat 'f

text \<open>The float a number becomes in a float column, in float arithmetic or in a float format.\<close>

definition as_float :: "'f float_ops \<Rightarrow> 'f number \<Rightarrow> 'f" where
  "as_float fl x =
     (case x of PyInt i \<Rightarrow> float_of_int fl i | PyFloat y \<Rightarrow> y | NpFloat y \<Rightarrow> y)"

text \<open>\<^verbatim>\<open>x > 0\<close>\<close>

definition positive :: "'f float_ops \<Rightarrow> 'f number \<Rightarrow> bool" where
  "positive fl x =
     (case x of PyInt i \<Rightarrow> 0 < i | PyFloat y \<Rightarrow> fpos fl y | NpFloat y \<Rightarrow> fpos fl y)"

text \<open>
  \<^verbatim>\<open>round(x, 2)\<close> calls \<^verbatim>\<open>type(x).__round__\<close>: an integer is returned as it is, a
  float of the interpreter is rounded by the interpreter and a \<^verbatim>\<open>numpy.float64\<close> by
  numpy.
\<close>

definition py_round2 :: "'f float_ops \<Rightarrow> 'f number \<Rightarrow> 'f number" where
  "py_round2 fl x =
     (case x of
        PyInt i \<Rightarrow> PyInt i
      | PyFloat y \<Rightarrow> PyFloat (round2 fl y)
      | NpFloat y \<Rightarrow> NpFloat (np_round2 fl y))"

text \<open>\<^verbatim>\<open>round(x)\<close>\<close>

definition py_round :: "'f float_ops \<Rightarrow> 'f number \<Rightarrow> int" where
  "py_round fl x =
     (case x of PyInt i \<Rightarrow> i | PyFloat y \<Rightarrow> round0 fl y | NpFloat y \<Rightarrow> round0 fl y)"

text \<open>\<^verbatim>\<open>total += x\<close> where \<^verbatim>\<open>x\<close> is a float or the integer \<^verbatim>\<open>0\<close>.\<close>

definition number_add :: "'f float_ops \<Rightarrow> 'f number \<Rightarrow> 'f number \<Rightarrow> 'f number" where
  "number_add fl x y =
     (case (x, y) of
        (PyInt i, PyInt j) \<Rightarrow> PyInt (i + j)
      | (NpFloat a, _) \<Rightarrow> NpFloat (fadd fl a (as_float fl y))
      | (_, NpFloat b) \<Rightarrow> NpFloat (fadd fl (as_float fl x) b)
      | _ \<Rightarrow> PyFloat (fadd fl (as_float fl x) (as_float fl y)))"

subsection \<open>Tag-level processor\<close>

text \<open>
  One dictionary appended to \<^verbatim>\<open>results\<close>, a row of the tag-level output; the
  percentage and the three averages are float columns.
\<close>

record 'f tag_row =
  row_Tag_id :: string
  row_Category_id :: string
  Frequency_Count :: int
  Frequency_Pct :: 'f
  Total_Likes :: int
  Total_Reposts :: int
  Total_Comments :: int
  Total_Engagement :: int
  X_Total_Engagement :: int
  Truth_Total_Engagement :: int
  Average_Engagement :: 'f
  X_Average_Engagement :: 'f
  Truth_Average_Engagement :: 'f

definition all_expected_tags :: "string list" where
  "all_expected_tags =
     [''A1'', ''A2'', ''A3'', ''A4'', ''A5'', ''A6'',
      ''B1'', ''B2'', ''B3'', ''B4'', ''B5'', ''B6'', ''B7'', ''B8'',
      ''C1'', ''C2'', ''C3'', ''C4'', ''C5'', ''C6'', ''C7'', ''C8'']"

text \<open>
  \<^verbatim>\<open>Series.str.contains(tag_id, na=False)\<close> on one cell: a search for the pattern
  at every position of the cell. The taxonomy codes have no regular-expression
  metacharacter, so the search is for the literal code.
\<close>

fun str_contains :: "string \<Rightarrow> string \<Rightarrow> bool" where
  "str_contains pat [] = (pat = [])"
| "str_contains pat (c # cs) = (prefix pat (c # cs) \<or> str_contains pat cs)"

text \<open>\<^verbatim>\<open>df[col].sum()\<close> of an integer column.\<close>

definition col_sum :: "('a \<Rightarrow> int) \<Rightarrow> 'a list \<Rightarrow> int" where
  "col_sum col rows = sum_list (map col rows)"

text \<open>\<^verbatim>\<open>x['Likes'].sum() + x['Repost'].sum() + x['Replies'].sum()\<close>\<close>

definition engagement_sum :: "raw_record list \<Rightarrow> int" where
  "engagement_sum rows = col_sum Likes rows + col_sum Repost rows + col_sum Replies rows"

text \<open>
  The body of the loop over \<^verbatim>\<open>all_expected_tags\<close>, for one tag. The float literal
  \<^verbatim>\<open>0.0\<close> is the float of the integer 0. The percentage is computed from two
  \<^verbatim>\<open>len(...)\<close>; the averages divide a sum of column sums.
\<close>

definition process_tag :: "'f float_ops \<Rightarrow> raw_record list \<Rightarrow> string \<Rightarrow> 'f tag_row" where
  "process_tag fl df_raw tag_id =
     (let category_id = take 1 tag_id;
          total_records = int (length df_raw);
          tag_data = filter (\<lambda>r. str_contains tag_id (Tag_id r)) df_raw
      in if length tag_data > 0 then
           (let frequency_count = int (length tag_data);
                frequency_percent =
                  PyFloat (fmul fl (true_div fl frequency_count total_records)
                             (float_of_int fl 100));
                total_likes = col_sum Likes tag_data;
                total_reposts = col_sum Repost tag_data;
                total_comments = col_sum Replies tag_data;
                total_engagement = total_likes + total_reposts + total_comments;
                x_data = filter (\<lambda>r. Platform r = ''X'') tag_data;
                x_total_engagement = (if length x_data > 0 then engagement_sum x_data else 0);
                truth_data = filter (\<lambda>r. Platform r = ''Truth Social'') tag_data;
                truth_total_engagement =
                  (if length truth_data > 0 then engagement_sum truth_data else 0);
                average_engagement =
                  (if frequency_count > 0
                   then NpFloat (np_true_div fl total_engagement frequency_count)
                   else PyInt 0);
                x_frequency_count = (if length x_data > 0 then int (length x_data) else 0);
                x_average_engagement =
                  (if x_frequency_count > 0
                   then NpFloat (np_true_div fl x_total_engagement x_frequency_count)
                   else PyInt 0);
                truth_frequency_count =
                  (if length truth_data > 0 then int (length truth_data) else 0);
                truth_average_engagement =
                  (if truth_frequency_count > 0
                   then NpFloat (np_true_div fl truth_total_engagement truth_frequency_count)
                   else PyInt 0)
            in \<lparr>row_Tag_id = tag_id, row_Category_id = category_id,
                Frequency_Count = frequency_count,
                Frequency_Pct = as_float fl (py_round2 fl frequency_percent),
                Total_Likes = total_likes, Total_Reposts = total_reposts,
                Total_Comments = total_comments, Total_Engagement = total_engagement,
                X_Total_Engagement = x_total_engagement,
                Truth_Total_Engagement = truth_total_engagement,
                Average_Engagement = as_float fl (py_round2 fl average_engagement),
                X_Average_Engagement = as_float fl (py_round2 fl x_average_engagement),
                Truth_Average_Engagement =
                  as_float fl (py_round2 fl truth_average_engagement)\<rparr>)
         else
           \<lparr>row_Tag_id = tag_id, row_Category_id = category_id,
            Frequency_Count = 0,
            Frequency_Pct = as_float fl (py_round2 fl (PyFloat (float_of_int fl 0))),
            Total_Likes = 0, Total_Reposts = 0, Total_Comments = 0, Total_Engagement = 0,
            X_Total_Engagement = 0, Truth_Total_Engagement = 0,
            Average_Engagement = as_float fl (py_round2 fl (PyFloat (float_of_int fl 0))),
            X_Average_Engagement = as_float fl (py_round2 fl (PyFloat (float_of_int fl 0))),
            Truth_Average_Engagement =
              as_float fl (py_round2 fl (PyFloat (float_of_int fl 0)))\<rparr>)"

text \<open>
  \<^verbatim>\<open>load_and_process_data\<close>: one row per expected tag, then
  \<^verbatim>\<open>sort_values(['Category_id', 'Tag_id'])\<close>.
\<close>

definition sort_rows :: "'f tag_row list \<Rightarrow> 'f tag_row list" where
  "sort_rows rows = sort_key (\<lambda>r. (row_Category_id r, row_Tag_id r)) rows"

definition load_and_process_data :: "'f float_ops \<Rightarrow> raw_record list \<Rightarrow> 'f tag_row list" where
  "load_and_process_data fl df_raw =
     sort_rows (map (process_tag fl df_raw) all_expected_tags)"

subsection \<open>Integer formatting\<close>

text \<open>Decimal digits of a non-negative integer, as \<^verbatim>\<open>str(n)\<close> prints them.\<close>

definition digit_char :: "int \<Rightarrow> char" where
  "digit_char d = ''0123456789'' ! nat d"

function show_int :: "int \<Rightarrow> string" where
  "show_int n =
     (if n < 10 then [digit_char n] else show_int (n div 10) @ [digit_char (n mod 10)])"
  by pat_completeness auto
termination
  by (relation "measure nat") auto

declare show_int.simps [simp del]

text \<open>A comma after every third digit, counted from the right; the argument is reversed.\<close>

fun group3 :: "string \<Rightarrow> string" where
  "group3 (a # b # c # d # ds) = a # b # c # CHR '','' # group3 (d # ds)"
| "group3 ds = ds"

text \<open>\<^verbatim>\<open>f"{n:,}"\<close> of an integer.\<close>

definition fmt_thousands :: "int \<Rightarrow> string" where
  "fmt_thousands n =
     (if n < 0 then ''-'' @ rev (group3 (rev (show_int (- n))))
      else rev (group3 (rev (show_int n))))"

subsection \<open>Category-level processor\<close>

text \<open>
  A cell of the \<^verbatim>\<open>Frequency (Count)\<close> column holds a number or a string; the
  other value columns hold strings. The empty string is \<open>[]\<close>.
\<close>

datatype cell = Num int | Str string

record out_row =
  Category_ID :: string
  Category_Name :: string
  out_Platform :: string
  out_Frequency_Count :: cell
  out_Frequency_Pct :: string
  out_Total_Engagement :: string
  out_Average_Engagement :: string

text \<open>\<^verbatim>\<open>f"{x:.2f}%"\<close> and \<^verbatim>\<open>f"{x:,.0f}"\<close> of a number.\<close>

definition fmt_pct :: "'f float_ops \<Rightarrow> 'f number \<Rightarrow> string" where
  "fmt_pct fl x = fmt2 fl (as_float fl x) @ ''%''"

definition fmt_avg :: "'f float_ops \<Rightarrow> 'f number \<Rightarrow> string" where
  "fmt_avg fl x = fmt0 fl (as_float fl x)"

text \<open>
  The category by platform table of \<^verbatim>\<open>load_raw_data\<close>:
  \<^verbatim>\<open>groupby(['Category_id', 'Platform']).size().unstack(fill_value=0)\<close>. Its index
  holds the categories of the raw rows, its columns their platforms, and a cell
  the number of raw rows with that category and platform.
\<close>

record platform_stats =
  ps_index :: "string list"
  ps_columns :: "string list"
  ps_loc :: "string \<Rightarrow> string \<Rightarrow> int"

text \<open>
  A file that may be missing is an \<open>option\<close>. \<^verbatim>\<open>load_raw_data\<close> catches
  \<^verbatim>\<open>FileNotFoundError\<close>, prints a warning and returns \<^verbatim>\<open>None\<close>.
\<close>

definition load_raw_data :: "raw_record list option \<Rightarrow> platform_stats option" where
  "load_raw_data raw_file =
     (case raw_file of
        None \<Rightarrow> None
      | Some df_raw \<Rightarrow>
          Some \<lparr>ps_index = sort (remdups (map Category_id df_raw)),
                ps_columns = sort (remdups (map Platform df_raw)),
                ps_loc = (\<lambda>c p. int (length
                   (filter (\<lambda>r. Category_id r = c \<and> Platform r = p) df_raw)))\<rparr>)"

text \<open>
  \<^verbatim>\<open>load_processed_data\<close>: the data frame, or \<^verbatim>\<open>None\<close> after printing an
  error when the file is missing.
\<close>

definition load_processed_data :: "'f tag_row list option \<Rightarrow> 'f tag_row list option" where
  "load_processed_data processed_file =
     (case processed_file of None \<Rightarrow> None | Some df \<Rightarrow> Some df)"

text \<open>The dictionary \<^verbatim>\<open>category_names\<close>, looked up at its three keys only.\<close>

definition category_names :: "string \<Rightarrow> string" where
  "category_names c =
     (if c = ''A'' then ''Subjugating the Bureaucracy''
      else if c = ''B'' then ''Waging Culture Wars''
      else ''Remaking Power Structures'')"

text \<open>
  The platform frequency of a category: the cell of the platform table when the
  table was loaded and has the platform's column, otherwise the number of tag rows of
  the category whose platform total engagement is positive.
\<close>

definition platform_frequency ::
  "platform_stats option \<Rightarrow> string \<Rightarrow> string \<Rightarrow> ('f tag_row \<Rightarrow> int) \<Rightarrow> 'f tag_row list \<Rightarrow> int"
  where
  "platform_frequency platform_stats platform category col category_data =
     (case platform_stats of
        None \<Rightarrow> int (length (filter (\<lambda>r. col r > 0) category_data))
      | Some ps \<Rightarrow>
          if platform \<in> set (ps_columns ps)
          then (if category \<in> set (ps_index ps) then ps_loc ps category platform else 0)
          else int (length (filter (\<lambda>r. col r > 0) category_data)))"

text \<open>The body of the loop over \<^verbatim>\<open>['A', 'B', 'C']\<close>: the three rows of a category.\<close>

definition category_rows ::
  "'f float_ops \<Rightarrow> 'f tag_row list \<Rightarrow> platform_stats option \<Rightarrow> int \<Rightarrow> string \<Rightarrow> out_row list"
  where
  "category_rows fl df platform_stats total_posts category =
     (let category_data = filter (\<lambda>r. row_Category_id r = category) df;
          combined_frequency = col_sum Frequency_Count category_data;
          combined_total_engagement = col_sum Total_Engagement category_data;
          combined_avg_engagement =
            (if combined_frequency > 0
             then NpFloat (np_true_div fl combined_total_engagement combined_frequency)
             else PyInt 0);
          combined_frequency_pct =
            (if total_posts > 0
             then NpFloat (fmul fl (np_true_div fl combined_frequency total_posts)
                             (float_of_int fl 100))
             else PyInt 0);
          x_frequency =
            platform_frequency platform_stats ''X'' category X_Total_Engagement category_data;
          x_total_engagement = col_sum X_Total_Engagement category_data;
          x_avg_engagement =
            (if x_frequency > 0
             then NpFloat (np_true_div fl x_total_engagement x_frequency) else PyInt 0);
          x_frequency_pct =
            (if total_posts > 0
             then NpFloat (fmul fl (np_true_div fl x_frequency total_posts)
                             (float_of_int fl 100))
             else PyInt 0);
          truth_frequency =
            platform_frequency platform_stats ''Truth Social'' category
              Truth_Total_Engagement category_data;
          truth_total_engagement = col_sum Truth_Total_Engagement category_data;
          truth_avg_engagement =
            (if truth_frequency > 0
             then NpFloat (np_true_div fl truth_total_engagement truth_frequency)
             else PyInt 0);
          truth_frequency_pct =
            (if total_posts > 0
             then NpFloat (fmul fl (np_true_div fl truth_frequency total_posts)
                             (float_of_int fl 100))
             else PyInt 0)
      in [\<lparr>Category_ID = category, Category_Name = category_names category,
           out_Platform = ''Combined'',
           out_Frequency_Count = Num combined_frequency,
           out_Frequency_Pct = fmt_pct fl combined_frequency_pct,
           out_Total_Engagement = fmt_thousands combined_total_engagement,
           out_Average_Engagement = fmt_avg fl combined_avg_engagement\<rparr>,
          \<lparr>Category_ID = category, Category_Name = category_names category,
           out_Platform = ''X'',
           out_Frequency_Count = (if x_frequency > 0 then Num x_frequency else Str []),
           out_Frequency_Pct = (if x_frequency > 0 then fmt_pct fl x_frequency_pct else []),
           out_Total_Engagement =
             (if x_total_engagement > 0 then fmt_thousands x_total_engagement else []),
           out_Average_Engagement =
             (if positive fl x_avg_engagement then fmt_avg fl x_avg_engagement else [])\<rparr>,
          \<lparr>Category_ID = category, Category_Name = category_names category,
           out_Platform = ''Truth Social'',
           out_Frequency_Count =
             (if truth_frequency > 0 then Num truth_frequency else Str []),
           out_Frequency_Pct =
             (if truth_frequency > 0 then fmt_pct fl truth_frequency_pct else []),
           out_Total_Engagement =
             (if truth_total_engagement > 0
              then fmt_thousands truth_total_engagement else []),
           out_Average_Engagement =
             (if positive fl truth_avg_engagement
              then fmt_avg fl truth_avg_engagement else [])\<rparr>])"

text \<open>The row appended after the loop.\<close>

definition total_row :: "'f float_ops \<Rightarrow> 'f tag_row list \<Rightarrow> int \<Rightarrow> out_row" where
  "total_row fl df total_posts =
     (let total_engagement = col_sum Total_Engagement df;
          total_avg_engagement =
            (if total_posts > 0
             then NpFloat (np_true_div fl total_engagement total_posts) else PyInt 0)
      in \<lparr>Category_ID = ''TOTAL'', Category_Name = ''All Categories'',
          out_Platform = ''Combined'',
          out_Frequency_Count = Num total_posts,
          out_Frequency_Pct = ''100%'',
          out_Total_Engagement = fmt_thousands total_engagement,
          out_Average_Engagement = fmt_avg fl total_avg_engagement\<rparr>)"

text \<open>
  \<^verbatim>\<open>calculate_category_stats(df)\<close>; the raw file it reads through
  \<^verbatim>\<open>load_raw_data\<close> is the last argument.
\<close>

definition calculate_category_stats ::
  "'f float_ops \<Rightarrow> 'f tag_row list \<Rightarrow> raw_record list option \<Rightarrow> out_row list" where
  "calculate_category_stats fl df raw_file =
     (let platform_stats = load_raw_data raw_file;
          total_posts = col_sum Frequency_Count df
      in concat (map (category_rows fl df platform_stats total_posts) [''A'', ''B'', ''C''])
         @ [total_row fl df total_posts])"

text \<open>
  \<^verbatim>\<open>main\<close> of the category-level script: the rows written to
  \<^verbatim>\<open>Engagement_overall_result.csv\<close>, or \<open>None\<close> when nothing is written.
\<close>

definition main_overall ::
  "'f float_ops \<Rightarrow> 'f tag_row list option \<Rightarrow> raw_record list option \<Rightarrow> out_row list option"
  where
  "main_overall fl processed_file raw_file =
     (case load_processed_data processed_file of
        None \<Rightarrow> None
      | Some df \<Rightarrow> Some (calculate_category_stats fl df raw_file))"

text \<open>
  The main block of the tag-level script: \<^verbatim>\<open>pd.read_csv\<close> raises when the raw
  file is missing, the exception is caught and printed, and no file is written.
\<close>

definition main_processor ::
  "'f float_ops \<Rightarrow> raw_record list option \<Rightarrow> 'f tag_row list option" where
  "main_processor fl raw_file =
     (case raw_file of
        None \<Rightarrow> None
      | Some df_raw \<Rightarrow> Some (load_and_process_data fl df_raw))"

subsection \<open>Platform frequency step of the signal-matrix scripts\<close>

text \<open>A row of the data frame with the two columns the step adds.\<close>

record 'f x_freq_row =
  x_base :: "'f tag_row"
  X_Frequency_Count :: int
  X_Frequency_Percent :: "'f number"


text \<open>
  The first loop of \<^verbatim>\<open>calculate_x_frequency_percentage\<close>: the count column, and
  the running total of the unrounded quotients, which starts as the integer 0.
\<close>

fun x_count_loop ::
  "'f float_ops \<Rightarrow> 'f tag_row list \<Rightarrow> 'f number \<Rightarrow> int list \<times> 'f number" where
  "x_count_loop fl [] total_x_posts = ([], total_x_posts)"
| "x_count_loop fl (row # rows) total_x_posts =
     (if fpos fl (X_Average_Engagement row) then
        (let x_freq_count =
               (if fpos fl (X_Average_Engagement row)
                then PyFloat (fdiv fl (float_of_int fl (X_Total_Engagement row))
                                (X_Average_Engagement row))
                else PyInt 0);
             (counts, total) = x_count_loop fl rows (number_add fl total_x_posts x_freq_count)
         in (py_round fl x_freq_count # counts, total))
      else
        (let (counts, total) = x_count_loop fl rows total_x_posts
         in (0 # counts, total)))"

text \<open>The second loop: the percentage column.\<close>

definition x_percent :: "'f float_ops \<Rightarrow> 'f number \<Rightarrow> int \<Rightarrow> 'f number" where
  "x_percent fl total_x_posts count =
     (if positive fl total_x_posts
      then PyFloat (fmul fl (fdiv fl (float_of_int fl count) (as_float fl total_x_posts))
                      (float_of_int fl 100))
      else PyInt 0)"

definition calculate_x_frequency_percentage ::
  "'f float_ops \<Rightarrow> 'f tag_row list \<Rightarrow> 'f x_freq_row list \<times> 'f number" where
  "calculate_x_frequency_percentage fl df =
     (let (counts, total_x_posts) = x_count_loop fl df (PyInt 0)
      in (map (\<lambda>(row, c). \<lparr>x_base = row, X_Frequency_Count = c,
                              X_Frequency_Percent = x_percent fl total_x_posts c\<rparr>)
              (zip df counts),
          total_x_posts))"




subsection \<open>Double precision floats\<close>

text \<open>
  The interpretation of the float operations that evaluates the examples: a float is
  the rational number a finite IEEE 754 double stands for, and an operation returns
  the double nearest to the exact result, a tie going to the even significand.
  Overflow and underflow are left out: no quantity of the scripts comes near them.
\<close>

text \<open>The nearest integer, a tie going to the even neighbour.\<close>

definition half_even :: "rat \<Rightarrow> int" where
  "half_even x =
     (let f = \<lfloor>x\<rfloor>; d = x - of_int f
      in if d < 1 / 2 then f
         else if 1 / 2 < d then f + 1
         else if even f then f else f + 1)"

definition pow2 :: "int \<Rightarrow> rat" where
  "pow2 k = (if 0 \<le> k then 2 ^ nat k else 1 / 2 ^ nat (- k))"

text \<open>
  The binary exponent of a positive rational \<open>a\<close>: the \<open>e\<close> with
  \<open>2 ^ e \<le> a < 2 ^ (e + 1)\<close>. The bit lengths of the numerator and the denominator
  give it up to one.
\<close>

definition exponent_from :: "rat \<Rightarrow> int \<Rightarrow> int" where
  "exponent_from a e0 = (if pow2 e0 \<le> a then e0 else e0 - 1)"

definition exponent :: "rat \<Rightarrow> int" where
  "exponent a =
     exponent_from a (bitlen (fst (quotient_of a)) - bitlen (snd (quotient_of a)))"

text \<open>
  The nearest double: the nearest multiple of \<open>2 ^ (e - 52)\<close>, which has a
  significand of 53 bits.
\<close>

definition round_at :: "rat \<Rightarrow> int \<Rightarrow> rat" where
  "round_at a e = of_int (half_even (a * pow2 (52 - e))) * pow2 (e - 52)"

definition rnd64 :: "rat \<Rightarrow> rat" where
  "rnd64 x = (if x = 0 then 0 else sgn x * round_at \<bar>x\<bar> (exponent \<bar>x\<bar>))"

text \<open>
  \<^verbatim>\<open>f"{x:.2f}"\<close> and \<^verbatim>\<open>f"{x:,.0f}"\<close>: the decimal digits of the exact value of the
  double, rounded at the last digit shown.
\<close>

definition fixed2 :: "rat \<Rightarrow> string" where
  "fixed2 x =
     (let n = half_even (\<bar>x\<bar> * 100)
      in (if x < 0 then ''-'' else []) @ show_int (n div 100) @ ''.'' @
         [digit_char (n mod 100 div 10), digit_char (n mod 10)])"

definition grouped0 :: "rat \<Rightarrow> string" where
  "grouped0 x =
     (if x < 0 then ''-'' @ rev (group3 (rev (show_int (half_even (- x)))))
      else rev (group3 (rev (show_int (half_even x)))))"

text \<open>
  The operations on doubles. The interpreter divides two integers exactly and
  rounds once; numpy converts both to doubles and divides those. \<^verbatim>\<open>round(x, 2)\<close> of
  the interpreter is the double nearest to the exact value of \<^verbatim>\<open>x\<close> rounded to two
  decimal places; \<^verbatim>\<open>numpy.float64.__round__\<close> multiplies by \<^verbatim>\<open>100.0\<close>, rounds to
  the nearest integer (\<^verbatim>\<open>rint\<close>) and divides by \<^verbatim>\<open>100.0\<close>, three operations on
  doubles. \<^verbatim>\<open>round(x)\<close> is the integer nearest to the exact value.
\<close>

definition b64_of_int :: "int \<Rightarrow> rat" where
  "b64_of_int n = rnd64 (of_int n)"

definition b64_true_div :: "int \<Rightarrow> int \<Rightarrow> rat" where
  "b64_true_div a b = rnd64 (of_int a / of_int b)"

definition b64_np_true_div :: "int \<Rightarrow> int \<Rightarrow> rat" where
  "b64_np_true_div a b = rnd64 (b64_of_int a / b64_of_int b)"

definition b64_div :: "rat \<Rightarrow> rat \<Rightarrow> rat" where
  "b64_div x y = rnd64 (x / y)"

definition b64_mul :: "rat \<Rightarrow> rat \<Rightarrow> rat" where
  "b64_mul x y = rnd64 (x * y)"

definition b64_add :: "rat \<Rightarrow> rat \<Rightarrow> rat" where
  "b64_add x y = rnd64 (x + y)"

definition b64_pos :: "rat \<Rightarrow> bool" where
  "b64_pos x = (0 < x)"

definition b64_round2 :: "rat \<Rightarrow> rat" where
  "b64_round2 x = rnd64 (of_int (half_even (x * 100)) / 100)"

definition b64_rint :: "rat \<Rightarrow> rat" where
  "b64_rint x = rnd64 (of_int (half_even x))"

definition b64_np_round2 :: "rat \<Rightarrow> rat" where
  "b64_np_round2 x = b64_div (b64_rint (b64_mul x (b64_of_int 100))) (b64_of_int 100)"

definition binary64 :: "rat float_ops" where
  "binary64 =
     \<lparr>float_of_int = b64_of_int, true_div = b64_true_div,
      np_true_div = b64_np_true_div, fdiv = b64_div, fmul = b64_mul, fadd = b64_add,
      fpos = b64_pos, round2 = b64_round2, np_round2 = b64_np_round2,
      round0 = half_even, fmt2 = fixed2, fmt0 = grouped0\<rparr>"

section \<open>Properties\<close>

subsection \<open>Shared facts\<close>

lemma str_contains_sublist: "str_contains pat s = sublist pat s"
  by (induction s) (auto simp: sublist_Cons_right)

lemma keys_sorted: "sorted (map (\<lambda>t. (take 1 t, t)) all_expected_tags)"
  unfolding all_expected_tags_def by (simp add: less_eq_prod_def less_char_def less_eq_char_def)

lemma process_tag_key:
  "(\<lambda>r. (row_Category_id r, row_Tag_id r)) \<circ> process_tag fl df = (\<lambda>t. (take 1 t, t))"
  by (rule ext) (simp add: process_tag_def Let_def)

lemma load_and_process_data_map:
  "load_and_process_data fl df = map (process_tag fl df) all_expected_tags"
proof -
  have "sorted (map (\<lambda>r. (row_Category_id r, row_Tag_id r))
          (map (process_tag fl df) all_expected_tags))"
    using keys_sorted by (simp only: map_map process_tag_key)
  then show ?thesis
    unfolding load_and_process_data_def sort_rows_def by (rule sort_key_id_if_sorted)
qed

lemma row_Tag_id_process_tag: "row_Tag_id (process_tag fl df t) = t"
  by (simp add: process_tag_def Let_def)

lemma distinct_all_expected_tags: "distinct all_expected_tags"
  unfolding all_expected_tags_def by simp

lemma length_all_expected_tags: "length all_expected_tags = 22"
  unfolding all_expected_tags_def by simp

lemma filter_eq_distinct: "distinct xs \<Longrightarrow> x \<in> set xs \<Longrightarrow> filter (\<lambda>y. y = x) xs = [x]"
  by (induction xs) (auto simp: filter_empty_conv)

lemma rows_of_tag:
  assumes "t \<in> set all_expected_tags"
  shows "filter (\<lambda>r. row_Tag_id r = t) (load_and_process_data fl df) = [process_tag fl df t]"
proof -
  have "filter (\<lambda>r. row_Tag_id r = t) (map (process_tag fl df) all_expected_tags)
        = map (process_tag fl df) (filter (\<lambda>y. y = t) all_expected_tags)"
    by (simp add: filter_map comp_def row_Tag_id_process_tag)
  with assms show ?thesis
    by (simp add: load_and_process_data_map filter_eq_distinct distinct_all_expected_tags)
qed

lemma in_output_iff:
  "row \<in> set (load_and_process_data fl df) \<longleftrightarrow>
     (\<exists>t \<in> set all_expected_tags. row = process_tag fl df t)"
  by (auto simp: load_and_process_data_map)

lemma round2_PyFloat: "as_float fl (py_round2 fl (PyFloat x)) = round2 fl x"
  by (simp add: as_float_def py_round2_def)

lemma round2_NpFloat: "as_float fl (py_round2 fl (NpFloat x)) = np_round2 fl x"
  by (simp add: as_float_def py_round2_def)

lemma process_tag_no_match:
  assumes "filter (\<lambda>r. sublist t (Tag_id r)) df = []"
  shows "process_tag fl df t =
     \<lparr>row_Tag_id = t, row_Category_id = take 1 t,
      Frequency_Count = 0, Frequency_Pct = round2 fl (float_of_int fl 0),
      Total_Likes = 0, Total_Reposts = 0, Total_Comments = 0, Total_Engagement = 0,
      X_Total_Engagement = 0, Truth_Total_Engagement = 0,
      Average_Engagement = round2 fl (float_of_int fl 0),
      X_Average_Engagement = round2 fl (float_of_int fl 0),
      Truth_Average_Engagement = round2 fl (float_of_int fl 0)\<rparr>"
  using assms by (simp add: process_tag_def str_contains_sublist round2_PyFloat)

lemma rnd64_zero: "rnd64 0 = 0"
  by (simp add: rnd64_def)

lemma half_even_zero: "half_even 0 = 0"
  by (simp add: half_even_def)

lemma binary64_zero:
  "float_of_int binary64 0 = 0 \<and> round2 binary64 0 = 0 \<and>
   true_div binary64 0 n = 0 \<and> fmul binary64 0 x = 0"
  by (simp add: binary64_def b64_of_int_def b64_round2_def b64_true_div_def b64_mul_def
      rnd64_zero half_even_zero)

text \<open>
  C1: the tag-level output has 22 rows, one for each tag of the taxonomy in the
  taxonomy's order; the row of a tag is unique, and when no input record contains
  the tag's code the row is the tag, its category, zero in every integer field and
  \<^verbatim>\<open>round(0.0, 2)\<close> in every float field, which is the double zero.
\<close>

theorem tag_output_one_row_per_tag:
  "length (load_and_process_data fl df) = 22 \<and>
   map row_Tag_id (load_and_process_data fl df) = all_expected_tags \<and>
   (\<forall>t \<in> set all_expected_tags.
      (\<exists>row. filter (\<lambda>r. row_Tag_id r = t) (load_and_process_data fl df) = [row] \<and>
         (filter (\<lambda>r. sublist t (Tag_id r)) df = [] \<longrightarrow>
            row = \<lparr>row_Tag_id = t, row_Category_id = take 1 t,
                   Frequency_Count = 0, Frequency_Pct = round2 fl (float_of_int fl 0),
                   Total_Likes = 0, Total_Reposts = 0, Total_Comments = 0,
                   Total_Engagement = 0,
                   X_Total_Engagement = 0, Truth_Total_Engagement = 0,
                   Average_Engagement = round2 fl (float_of_int fl 0),
                   X_Average_Engagement = round2 fl (float_of_int fl 0),
                   Truth_Average_Engagement = round2 fl (float_of_int fl 0)\<rparr>))) \<and>
   round2 binary64 (float_of_int binary64 0) = 0"
proof (intro conjI ballI)
  show "length (load_and_process_data fl df) = 22"
    by (simp add: load_and_process_data_map length_all_expected_tags)
  show "map row_Tag_id (load_and_process_data fl df) = all_expected_tags"
    by (simp add: load_and_process_data_map comp_def row_Tag_id_process_tag)
  show "round2 binary64 (float_of_int binary64 0) = 0"
    by (simp add: binary64_zero)
next
  fix t assume "t \<in> set all_expected_tags"
  then have "filter (\<lambda>r. row_Tag_id r = t) (load_and_process_data fl df)
               = [process_tag fl df t]"
    by (rule rows_of_tag)
  then show "\<exists>row. filter (\<lambda>r. row_Tag_id r = t) (load_and_process_data fl df) = [row] \<and>
         (filter (\<lambda>r. sublist t (Tag_id r)) df = [] \<longrightarrow>
            row = \<lparr>row_Tag_id = t, row_Category_id = take 1 t,
                   Frequency_Count = 0, Frequency_Pct = round2 fl (float_of_int fl 0),
                   Total_Likes = 0, Total_Reposts = 0, Total_Comments = 0,
                   Total_Engagement = 0,
                   X_Total_Engagement = 0, Truth_Total_Engagement = 0,
                   Average_Engagement = round2 fl (float_of_int fl 0),
                   X_Average_Engagement = round2 fl (float_of_int fl 0),
                   Truth_Average_Engagement = round2 fl (float_of_int fl 0)\<rparr>)"
    using process_tag_no_match by blast
qed

theorem tag_output_one_row_per_tag_witness:
  "''C3'' \<in> set all_expected_tags \<and>
   filter (\<lambda>r. sublist ''C3'' (Tag_id r))
     [\<lparr>Tag_id = ''A1'', Category_id = ''A'', Platform = ''X'',
       Likes = 10, Repost = 1, Replies = 0\<rparr>] = [] \<and>
   filter (\<lambda>r. row_Tag_id r = ''C3'')
     (load_and_process_data binary64
        [\<lparr>Tag_id = ''A1'', Category_id = ''A'', Platform = ''X'',
          Likes = 10, Repost = 1, Replies = 0\<rparr>]) =
     [\<lparr>row_Tag_id = ''C3'', row_Category_id = ''C'',
       Frequency_Count = 0, Frequency_Pct = 0,
       Total_Likes = 0, Total_Reposts = 0, Total_Comments = 0, Total_Engagement = 0,
       X_Total_Engagement = 0, Truth_Total_Engagement = 0,
       Average_Engagement = 0, X_Average_Engagement = 0,
       Truth_Average_Engagement = 0\<rparr>]"
proof -
  have tag: "''C3'' \<in> set all_expected_tags"
    by (simp add: all_expected_tags_def)
  have none: "filter (\<lambda>r. sublist ''C3'' (Tag_id r))
     [\<lparr>Tag_id = ''A1'', Category_id = ''A'', Platform = ''X'',
       Likes = 10, Repost = 1, Replies = 0\<rparr>] = []"
    by (simp add: sublist_Cons_right)
  from tag_output_one_row_per_tag
    [of binary64 "[\<lparr>Tag_id = ''A1'', Category_id = ''A'', Platform = ''X'',
          Likes = 10, Repost = 1, Replies = 0\<rparr>]"] tag none
  show ?thesis by auto
qed

text \<open>
  The double precision interpretation at three inputs where the exact quotient lies
  on a decimal tie and the double quotient lies below it: 23 of 160 records is
  14.37 percent, a total of 23 over a count of 40 is the average 0.57, and 49 over
  the stored average 0.56 is 87. The two roundings to two places differ at the
  double 0.025, which lies above the tie and whose product with 100 is the double
  2.5: the interpreter gives 0.03, and numpy, which rounds an average, gives 0.02.
\<close>

lemma binary64_examples:
  "fmt2 binary64 (round2 binary64 (fmul binary64 (true_div binary64 23 160)
             (float_of_int binary64 100))) = ''14.37'' \<and>
   fmt2 binary64 (np_round2 binary64 (np_true_div binary64 23 40)) = ''0.57'' \<and>
   round0 binary64 (fdiv binary64 (float_of_int binary64 49)
             (np_round2 binary64 (np_true_div binary64 49 87))) = 87 \<and>
   fmt2 binary64 (round2 binary64 (true_div binary64 1 40)) = ''0.03'' \<and>
   fmt2 binary64 (np_round2 binary64 (np_true_div binary64 1 40)) = ''0.02''"
  by code_simp

lemma process_tag_aggregates:
  "Frequency_Count (process_tag fl df t) =
     int (length (filter (\<lambda>r. sublist t (Tag_id r)) df)) \<and>
   Total_Likes (process_tag fl df t) =
     sum_list (map Likes (filter (\<lambda>r. sublist t (Tag_id r)) df)) \<and>
   Total_Reposts (process_tag fl df t) =
     sum_list (map Repost (filter (\<lambda>r. sublist t (Tag_id r)) df)) \<and>
   Total_Comments (process_tag fl df t) =
     sum_list (map Replies (filter (\<lambda>r. sublist t (Tag_id r)) df))"
  by (cases "filter (\<lambda>r. sublist t (Tag_id r)) df = []")
     (simp_all add: process_tag_def Let_def str_contains_sublist col_sum_def)

lemma process_tag_frequency_pct:
  "Frequency_Pct (process_tag fl df t) =
     (if 0 < Frequency_Count (process_tag fl df t)
      then round2 fl (fmul fl (true_div fl (Frequency_Count (process_tag fl df t))
                                 (int (length df)))
                        (float_of_int fl 100))
      else round2 fl (float_of_int fl 0))"
  by (cases "filter (\<lambda>r. str_contains t (Tag_id r)) df = []")
     (simp_all add: process_tag_def Let_def round2_PyFloat)

text \<open>
  C2: a record counts toward the row of a tag exactly when the tag's code occurs
  somewhere inside the record's \<open>Tag_id\<close> (\<open>sublist\<close>: the cell is some prefix,
  then the code, then some suffix). The row's count is the number of those records
  and its like, repost and comment totals are sums over those records. Its
  percentage is \<^verbatim>\<open>round(x, 2)\<close> of the count over the number of input records times
  100 when the count is positive, and \<^verbatim>\<open>round(0.0, 2)\<close> when it is zero; in double
  precision the second is the first at a count of zero.
\<close>

theorem tag_matching_and_frequency:
  assumes "row \<in> set (load_and_process_data fl df)"
  shows "Frequency_Count row =
           int (length (filter (\<lambda>r. sublist (row_Tag_id row) (Tag_id r)) df)) \<and>
         Total_Likes row =
           sum_list (map Likes (filter (\<lambda>r. sublist (row_Tag_id row) (Tag_id r)) df)) \<and>
         Total_Reposts row =
           sum_list (map Repost (filter (\<lambda>r. sublist (row_Tag_id row) (Tag_id r)) df)) \<and>
         Total_Comments row =
           sum_list (map Replies (filter (\<lambda>r. sublist (row_Tag_id row) (Tag_id r)) df)) \<and>
         Frequency_Pct row =
           (if 0 < Frequency_Count row
            then round2 fl (fmul fl (true_div fl (Frequency_Count row) (int (length df)))
                              (float_of_int fl 100))
            else round2 fl (float_of_int fl 0)) \<and>
         round2 binary64 (fmul binary64 (true_div binary64 0 n) (float_of_int binary64 100)) =
           round2 binary64 (float_of_int binary64 0)"
proof -
  from assms obtain t where row: "row = process_tag fl df t"
    by (auto simp: in_output_iff)
  have tag: "row_Tag_id row = t"
    by (simp add: row row_Tag_id_process_tag)
  show ?thesis
    using process_tag_aggregates[of fl df t] process_tag_frequency_pct[of fl df t]
    by (simp add: row[symmetric] tag binary64_zero)
qed

theorem tag_matching_and_frequency_witness:
  "process_tag binary64
     [\<lparr>Tag_id = ''A1,B2'', Category_id = ''A'', Platform = ''X'',
       Likes = 10, Repost = 1, Replies = 0\<rparr>,
      \<lparr>Tag_id = ''B2'', Category_id = ''B'', Platform = ''Truth Social'',
       Likes = 5, Repost = 0, Replies = 1\<rparr>,
      \<lparr>Tag_id = ''C1'', Category_id = ''C'', Platform = ''X'',
       Likes = 7, Repost = 2, Replies = 3\<rparr>] ''B2''
   \<in> set (load_and_process_data binary64
     [\<lparr>Tag_id = ''A1,B2'', Category_id = ''A'', Platform = ''X'',
       Likes = 10, Repost = 1, Replies = 0\<rparr>,
      \<lparr>Tag_id = ''B2'', Category_id = ''B'', Platform = ''Truth Social'',
       Likes = 5, Repost = 0, Replies = 1\<rparr>,
      \<lparr>Tag_id = ''C1'', Category_id = ''C'', Platform = ''X'',
       Likes = 7, Repost = 2, Replies = 3\<rparr>]) \<and>
   Frequency_Count (process_tag binary64
     [\<lparr>Tag_id = ''A1,B2'', Category_id = ''A'', Platform = ''X'',
       Likes = 10, Repost = 1, Replies = 0\<rparr>,
      \<lparr>Tag_id = ''B2'', Category_id = ''B'', Platform = ''Truth Social'',
       Likes = 5, Repost = 0, Replies = 1\<rparr>,
      \<lparr>Tag_id = ''C1'', Category_id = ''C'', Platform = ''X'',
       Likes = 7, Repost = 2, Replies = 3\<rparr>] ''B2'') = 2 \<and>
   Total_Likes (process_tag binary64
     [\<lparr>Tag_id = ''A1,B2'', Category_id = ''A'', Platform = ''X'',
       Likes = 10, Repost = 1, Replies = 0\<rparr>,
      \<lparr>Tag_id = ''B2'', Category_id = ''B'', Platform = ''Truth Social'',
       Likes = 5, Repost = 0, Replies = 1\<rparr>,
      \<lparr>Tag_id = ''C1'', Category_id = ''C'', Platform = ''X'',
       Likes = 7, Repost = 2, Replies = 3\<rparr>] ''B2'') = 15 \<and>
   Frequency_Pct (process_tag binary64
     [\<lparr>Tag_id = ''A1,B2'', Category_id = ''A'', Platform = ''X'',
       Likes = 10, Repost = 1, Replies = 0\<rparr>,
      \<lparr>Tag_id = ''B2'', Category_id = ''B'', Platform = ''Truth Social'',
       Likes = 5, Repost = 0, Replies = 1\<rparr>,
      \<lparr>Tag_id = ''C1'', Category_id = ''C'', Platform = ''X'',
       Likes = 7, Repost = 2, Replies = 3\<rparr>] ''B2'') =
     4691484174324859 / 70368744177664 \<and>
   fixed2 (4691484174324859 / 70368744177664) = ''66.67''"
proof -
  let ?df = "[\<lparr>Tag_id = ''A1,B2'', Category_id = ''A'', Platform = ''X'',
       Likes = 10, Repost = 1, Replies = 0\<rparr>,
      \<lparr>Tag_id = ''B2'', Category_id = ''B'', Platform = ''Truth Social'',
       Likes = 5, Repost = 0, Replies = 1\<rparr>,
      \<lparr>Tag_id = ''C1'', Category_id = ''C'', Platform = ''X'',
       Likes = 7, Repost = 2, Replies = 3\<rparr>]"
  have mem: "process_tag binary64 ?df ''B2'' \<in> set (load_and_process_data binary64 ?df)"
    by (simp add: load_and_process_data_map all_expected_tags_def)
  have rnd: "round2 binary64 (fmul binary64 (true_div binary64 2 3)
               (float_of_int binary64 100)) = 4691484174324859 / 70368744177664"
    by code_simp
  have digits: "fixed2 (4691484174324859 / 70368744177664) = ''66.67''"
    by code_simp
  from tag_matching_and_frequency[OF mem] mem rnd digits show ?thesis
    by (simp add: row_Tag_id_process_tag sublist_Cons_right)
qed

lemma process_tag_total_engagement:
  "Total_Engagement (process_tag fl df t) =
     Total_Likes (process_tag fl df t) + Total_Reposts (process_tag fl df t)
       + Total_Comments (process_tag fl df t)"
  by (simp add: process_tag_def Let_def)

lemma process_tag_average:
  "Average_Engagement (process_tag fl df t) =
     (if Frequency_Count (process_tag fl df t) > 0
      then np_round2 fl (np_true_div fl (Total_Engagement (process_tag fl df t))
                           (Frequency_Count (process_tag fl df t)))
      else round2 fl (float_of_int fl 0))"
  by (cases "filter (\<lambda>r. str_contains t (Tag_id r)) df = []")
     (simp_all add: process_tag_def Let_def round2_PyFloat round2_NpFloat)

text \<open>
  C3, as stated, fails: with three records tagged A1 whose engagement sums to 1, the
  row of A1 has a positive count and its stored average prints as 0.33, which is not
  the quotient of its total engagement by its count.
\<close>

theorem average_engagement_unrounded_counterexample:
  "row_Tag_id (load_and_process_data binary64
     [\<lparr>Tag_id = ''A1'', Category_id = ''A'', Platform = ''X'',
       Likes = 1, Repost = 0, Replies = 0\<rparr>,
      \<lparr>Tag_id = ''A1'', Category_id = ''A'', Platform = ''X'',
       Likes = 0, Repost = 0, Replies = 0\<rparr>,
      \<lparr>Tag_id = ''A1'', Category_id = ''A'', Platform = ''X'',
       Likes = 0, Repost = 0, Replies = 0\<rparr>] ! 0) = ''A1'' \<and>
   0 < Frequency_Count (load_and_process_data binary64
     [\<lparr>Tag_id = ''A1'', Category_id = ''A'', Platform = ''X'',
       Likes = 1, Repost = 0, Replies = 0\<rparr>,
      \<lparr>Tag_id = ''A1'', Category_id = ''A'', Platform = ''X'',
       Likes = 0, Repost = 0, Replies = 0\<rparr>,
      \<lparr>Tag_id = ''A1'', Category_id = ''A'', Platform = ''X'',
       Likes = 0, Repost = 0, Replies = 0\<rparr>] ! 0) \<and>
   fixed2 (Average_Engagement (load_and_process_data binary64
     [\<lparr>Tag_id = ''A1'', Category_id = ''A'', Platform = ''X'',
       Likes = 1, Repost = 0, Replies = 0\<rparr>,
      \<lparr>Tag_id = ''A1'', Category_id = ''A'', Platform = ''X'',
       Likes = 0, Repost = 0, Replies = 0\<rparr>,
      \<lparr>Tag_id = ''A1'', Category_id = ''A'', Platform = ''X'',
       Likes = 0, Repost = 0, Replies = 0\<rparr>] ! 0)) = ''0.33'' \<and>
   Average_Engagement (load_and_process_data binary64
     [\<lparr>Tag_id = ''A1'', Category_id = ''A'', Platform = ''X'',
       Likes = 1, Repost = 0, Replies = 0\<rparr>,
      \<lparr>Tag_id = ''A1'', Category_id = ''A'', Platform = ''X'',
       Likes = 0, Repost = 0, Replies = 0\<rparr>,
      \<lparr>Tag_id = ''A1'', Category_id = ''A'', Platform = ''X'',
       Likes = 0, Repost = 0, Replies = 0\<rparr>] ! 0) \<noteq>
     np_true_div binary64
       (Total_Engagement (load_and_process_data binary64
         [\<lparr>Tag_id = ''A1'', Category_id = ''A'', Platform = ''X'',
           Likes = 1, Repost = 0, Replies = 0\<rparr>,
          \<lparr>Tag_id = ''A1'', Category_id = ''A'', Platform = ''X'',
           Likes = 0, Repost = 0, Replies = 0\<rparr>,
          \<lparr>Tag_id = ''A1'', Category_id = ''A'', Platform = ''X'',
           Likes = 0, Repost = 0, Replies = 0\<rparr>] ! 0))
       (Frequency_Count (load_and_process_data binary64
         [\<lparr>Tag_id = ''A1'', Category_id = ''A'', Platform = ''X'',
           Likes = 1, Repost = 0, Replies = 0\<rparr>,
          \<lparr>Tag_id = ''A1'', Category_id = ''A'', Platform = ''X'',
           Likes = 0, Repost = 0, Replies = 0\<rparr>,
          \<lparr>Tag_id = ''A1'', Category_id = ''A'', Platform = ''X'',
           Likes = 0, Repost = 0, Replies = 0\<rparr>] ! 0))"
  by code_simp

text \<open>
  C3, amended: in every row of the tag-level output the total engagement is the sum
  of the like, repost and comment totals, and the average engagement is
  \<^verbatim>\<open>round(x, 2)\<close> of the total engagement over the count when the count is
  positive (the quotient and its rounding are numpy's), and \<^verbatim>\<open>round(0.0, 2)\<close>, the
  double zero, otherwise.
\<close>

theorem total_and_average_engagement:
  assumes "row \<in> set (load_and_process_data fl df)"
  shows "Total_Engagement row = Total_Likes row + Total_Reposts row + Total_Comments row \<and>
         Average_Engagement row =
           (if Frequency_Count row > 0
            then np_round2 fl (np_true_div fl (Total_Engagement row) (Frequency_Count row))
            else round2 fl (float_of_int fl 0)) \<and>
         round2 binary64 (float_of_int binary64 0) = 0"
proof -
  from assms obtain t where row: "row = process_tag fl df t"
    by (auto simp: in_output_iff)
  show ?thesis
    unfolding row
    using process_tag_total_engagement[of fl df t] process_tag_average[of fl df t]
    by (simp add: binary64_zero)
qed

theorem total_and_average_engagement_witness:
  "process_tag binary64
     [\<lparr>Tag_id = ''A1'', Category_id = ''A'', Platform = ''X'',
       Likes = 10, Repost = 1, Replies = 0\<rparr>,
      \<lparr>Tag_id = ''A1'', Category_id = ''A'', Platform = ''X'',
       Likes = 20, Repost = 2, Replies = 1\<rparr>,
      \<lparr>Tag_id = ''B2'', Category_id = ''B'', Platform = ''X'',
       Likes = 5, Repost = 0, Replies = 1\<rparr>] ''A1''
   \<in> set (load_and_process_data binary64
     [\<lparr>Tag_id = ''A1'', Category_id = ''A'', Platform = ''X'',
       Likes = 10, Repost = 1, Replies = 0\<rparr>,
      \<lparr>Tag_id = ''A1'', Category_id = ''A'', Platform = ''X'',
       Likes = 20, Repost = 2, Replies = 1\<rparr>,
      \<lparr>Tag_id = ''B2'', Category_id = ''B'', Platform = ''X'',
       Likes = 5, Repost = 0, Replies = 1\<rparr>]) \<and>
   Total_Engagement (process_tag binary64
     [\<lparr>Tag_id = ''A1'', Category_id = ''A'', Platform = ''X'',
       Likes = 10, Repost = 1, Replies = 0\<rparr>,
      \<lparr>Tag_id = ''A1'', Category_id = ''A'', Platform = ''X'',
       Likes = 20, Repost = 2, Replies = 1\<rparr>,
      \<lparr>Tag_id = ''B2'', Category_id = ''B'', Platform = ''X'',
       Likes = 5, Repost = 0, Replies = 1\<rparr>] ''A1'') = 34 \<and>
   Average_Engagement (process_tag binary64
     [\<lparr>Tag_id = ''A1'', Category_id = ''A'', Platform = ''X'',
       Likes = 10, Repost = 1, Replies = 0\<rparr>,
      \<lparr>Tag_id = ''A1'', Category_id = ''A'', Platform = ''X'',
       Likes = 20, Repost = 2, Replies = 1\<rparr>,
      \<lparr>Tag_id = ''B2'', Category_id = ''B'', Platform = ''X'',
       Likes = 5, Repost = 0, Replies = 1\<rparr>] ''A1'') = 17"
proof -
  let ?df = "[\<lparr>Tag_id = ''A1'', Category_id = ''A'', Platform = ''X'',
       Likes = 10, Repost = 1, Replies = 0\<rparr>,
      \<lparr>Tag_id = ''A1'', Category_id = ''A'', Platform = ''X'',
       Likes = 20, Repost = 2, Replies = 1\<rparr>,
      \<lparr>Tag_id = ''B2'', Category_id = ''B'', Platform = ''X'',
       Likes = 5, Repost = 0, Replies = 1\<rparr>]"
  have mem: "process_tag binary64 ?df ''A1'' \<in> set (load_and_process_data binary64 ?df)"
    by (simp add: load_and_process_data_map all_expected_tags_def)
  have likes: "Total_Likes (process_tag binary64 ?df ''A1'') = 30"
    and reposts: "Total_Reposts (process_tag binary64 ?df ''A1'') = 3"
    and comments: "Total_Comments (process_tag binary64 ?df ''A1'') = 1"
    and count: "Frequency_Count (process_tag binary64 ?df ''A1'') = 2"
    by code_simp+
  have rnd: "np_round2 binary64 (np_true_div binary64 34 2) = 17"
    by code_simp
  from total_and_average_engagement[OF mem] mem likes reposts comments count rnd
  show ?thesis by simp
qed

lemma col_sum_platform_split:
  assumes "\<forall>r \<in> set xs. Platform r = ''X'' \<or> Platform r = ''Truth Social''"
  shows "col_sum f xs =
           col_sum f (filter (\<lambda>r. Platform r = ''X'') xs)
           + col_sum f (filter (\<lambda>r. Platform r = ''Truth Social'') xs)"
  using assms by (induction xs) (auto simp: col_sum_def)

lemma engagement_sum_platform_split:
  assumes "\<forall>r \<in> set xs. Platform r = ''X'' \<or> Platform r = ''Truth Social''"
  shows "engagement_sum xs =
           engagement_sum (filter (\<lambda>r. Platform r = ''X'') xs)
           + engagement_sum (filter (\<lambda>r. Platform r = ''Truth Social'') xs)"
  unfolding engagement_sum_def
  using col_sum_platform_split[OF assms, of Likes] col_sum_platform_split[OF assms, of Repost]
    col_sum_platform_split[OF assms, of Replies]
  by simp

lemma engagement_sum_Nil: "engagement_sum [] = 0"
  by (simp add: engagement_sum_def col_sum_def)

lemma process_tag_platform_totals:
  "Total_Engagement (process_tag fl df t) =
     engagement_sum (filter (\<lambda>r. str_contains t (Tag_id r)) df) \<and>
   X_Total_Engagement (process_tag fl df t) =
     engagement_sum (filter (\<lambda>r. Platform r = ''X'')
       (filter (\<lambda>r. str_contains t (Tag_id r)) df)) \<and>
   Truth_Total_Engagement (process_tag fl df t) =
     engagement_sum (filter (\<lambda>r. Platform r = ''Truth Social'')
       (filter (\<lambda>r. str_contains t (Tag_id r)) df))"
proof (cases "filter (\<lambda>r. str_contains t (Tag_id r)) df = []")
  case True
  then show ?thesis
    by (simp add: process_tag_def engagement_sum_Nil)
next
  case False
  then show ?thesis
    by (simp add: process_tag_def Let_def engagement_sum_Nil)
       (simp add: engagement_sum_def)
qed

text \<open>
  C10: when the platform of every input record is \<open>X\<close> or \<open>Truth Social\<close>, the
  total engagement of every tag row is its X total plus its Truth Social total.
\<close>

theorem total_is_sum_of_platform_totals:
  assumes "\<forall>r \<in> set df. Platform r = ''X'' \<or> Platform r = ''Truth Social''"
    and "row \<in> set (load_and_process_data fl df)"
  shows "Total_Engagement row = X_Total_Engagement row + Truth_Total_Engagement row"
proof -
  from assms(2) obtain t where row: "row = process_tag fl df t"
    by (auto simp: in_output_iff)
  have "\<forall>r \<in> set (filter (\<lambda>r. str_contains t (Tag_id r)) df).
          Platform r = ''X'' \<or> Platform r = ''Truth Social''"
    using assms(1) by simp
  from engagement_sum_platform_split[OF this] show ?thesis
    unfolding row using process_tag_platform_totals[of fl df t] by simp
qed

theorem total_is_sum_of_platform_totals_witness:
  "process_tag binary64
     [\<lparr>Tag_id = ''A1'', Category_id = ''A'', Platform = ''X'',
       Likes = 10, Repost = 1, Replies = 0\<rparr>,
      \<lparr>Tag_id = ''A1'', Category_id = ''A'', Platform = ''Truth Social'',
       Likes = 20, Repost = 2, Replies = 1\<rparr>] ''A1''
   \<in> set (load_and_process_data binary64
     [\<lparr>Tag_id = ''A1'', Category_id = ''A'', Platform = ''X'',
       Likes = 10, Repost = 1, Replies = 0\<rparr>,
      \<lparr>Tag_id = ''A1'', Category_id = ''A'', Platform = ''Truth Social'',
       Likes = 20, Repost = 2, Replies = 1\<rparr>]) \<and>
   X_Total_Engagement (process_tag binary64
     [\<lparr>Tag_id = ''A1'', Category_id = ''A'', Platform = ''X'',
       Likes = 10, Repost = 1, Replies = 0\<rparr>,
      \<lparr>Tag_id = ''A1'', Category_id = ''A'', Platform = ''Truth Social'',
       Likes = 20, Repost = 2, Replies = 1\<rparr>] ''A1'') = 11 \<and>
   Truth_Total_Engagement (process_tag binary64
     [\<lparr>Tag_id = ''A1'', Category_id = ''A'', Platform = ''X'',
       Likes = 10, Repost = 1, Replies = 0\<rparr>,
      \<lparr>Tag_id = ''A1'', Category_id = ''A'', Platform = ''Truth Social'',
       Likes = 20, Repost = 2, Replies = 1\<rparr>] ''A1'') = 23 \<and>
   Total_Engagement (process_tag binary64
     [\<lparr>Tag_id = ''A1'', Category_id = ''A'', Platform = ''X'',
       Likes = 10, Repost = 1, Replies = 0\<rparr>,
      \<lparr>Tag_id = ''A1'', Category_id = ''A'', Platform = ''Truth Social'',
       Likes = 20, Repost = 2, Replies = 1\<rparr>] ''A1'') = 34"
proof -
  let ?df = "[\<lparr>Tag_id = ''A1'', Category_id = ''A'', Platform = ''X'',
       Likes = 10, Repost = 1, Replies = 0\<rparr>,
      \<lparr>Tag_id = ''A1'', Category_id = ''A'', Platform = ''Truth Social'',
       Likes = 20, Repost = 2, Replies = 1\<rparr>]"
  have plat: "\<forall>r \<in> set ?df. Platform r = ''X'' \<or> Platform r = ''Truth Social''"
    by simp
  have mem: "process_tag binary64 ?df ''A1'' \<in> set (load_and_process_data binary64 ?df)"
    by (simp add: load_and_process_data_map all_expected_tags_def)
  have x: "X_Total_Engagement (process_tag binary64 ?df ''A1'') = 11"
    and truth: "Truth_Total_Engagement (process_tag binary64 ?df ''A1'') = 23"
    by code_simp+
  from total_is_sum_of_platform_totals[OF plat mem] mem x truth
  show ?thesis by simp
qed

lemma category_rows_order:
  "map (\<lambda>r. (Category_ID r, out_Platform r)) (category_rows fl df ps total_posts c) =
     [(c, ''Combined''), (c, ''X''), (c, ''Truth Social'')]"
  by (simp add: category_rows_def Let_def)

lemma total_row_key:
  "(Category_ID (total_row fl df total_posts), out_Platform (total_row fl df total_posts)) =
     (''TOTAL'', ''Combined'')"
  by (simp add: total_row_def Let_def)

text \<open>
  C9: the tag-level output is sorted by category and then by tag, in the
  lexicographic order of strings, and lists the tags in the taxonomy's order. The
  category-level output lists A, B and C in that order, each with its Combined, X
  and Truth Social rows in that order, and ends with the single TOTAL row.
\<close>

theorem output_ordering:
  "sorted (map (\<lambda>r. (row_Category_id r, row_Tag_id r)) (load_and_process_data fl df_raw)) \<and>
   map row_Tag_id (load_and_process_data fl df_raw) = all_expected_tags \<and>
   map (\<lambda>r. (Category_ID r, out_Platform r)) (calculate_category_stats fl df raw_file) =
     [(''A'', ''Combined''), (''A'', ''X''), (''A'', ''Truth Social''),
      (''B'', ''Combined''), (''B'', ''X''), (''B'', ''Truth Social''),
      (''C'', ''Combined''), (''C'', ''X''), (''C'', ''Truth Social''),
      (''TOTAL'', ''Combined'')]"
proof (intro conjI)
  show "sorted (map (\<lambda>r. (row_Category_id r, row_Tag_id r))
          (load_and_process_data fl df_raw))"
    unfolding load_and_process_data_def sort_rows_def by (rule sorted_sort_key)
  show "map row_Tag_id (load_and_process_data fl df_raw) = all_expected_tags"
    by (simp add: load_and_process_data_map comp_def row_Tag_id_process_tag)
  show "map (\<lambda>r. (Category_ID r, out_Platform r)) (calculate_category_stats fl df raw_file) =
     [(''A'', ''Combined''), (''A'', ''X''), (''A'', ''Truth Social''),
      (''B'', ''Combined''), (''B'', ''X''), (''B'', ''Truth Social''),
      (''C'', ''Combined''), (''C'', ''X''), (''C'', ''Truth Social''),
      (''TOTAL'', ''Combined'')]"
    unfolding calculate_category_stats_def Let_def
    using total_row_key[of fl df "col_sum Frequency_Count df"]
    by (simp add: category_rows_order)
qed




text \<open>
  The frequency step in double precision on a row with an X total engagement of 49
  and the stored X average 0.56: the quotient is the double 87.49999999999999 and
  the count is 87.
\<close>

lemma x_frequency_example:
  "map X_Frequency_Count
     (fst (calculate_x_frequency_percentage binary64
        [\<lparr>row_Tag_id = ''A1'', row_Category_id = ''A'', Frequency_Count = 87,
        Frequency_Pct = 100, Total_Likes = 49, Total_Reposts = 0, Total_Comments = 0,
        Total_Engagement = 49, X_Total_Engagement = 49, Truth_Total_Engagement = 0,
        Average_Engagement = true_div binary64 56 100,
        X_Average_Engagement = true_div binary64 56 100, Truth_Average_Engagement = 0\<rparr>])) = [87]"
  by code_simp



lemma calculate_category_stats_rows:
  "calculate_category_stats fl df raw_file =
     category_rows fl df (load_raw_data raw_file) (col_sum Frequency_Count df) ''A'' @
     category_rows fl df (load_raw_data raw_file) (col_sum Frequency_Count df) ''B'' @
     category_rows fl df (load_raw_data raw_file) (col_sum Frequency_Count df) ''C'' @
     [total_row fl df (col_sum Frequency_Count df)]"
  by (simp add: calculate_category_stats_def Let_def)

lemma category_rows_shape:
  "\<exists>a b d. category_rows fl df ps tp c = [a, b, d] \<and>
     Category_ID a = c \<and> Category_ID b = c \<and> Category_ID d = c"
  by (simp add: category_rows_def Let_def split del: if_split)

lemma filter_category_rows:
  "filter (\<lambda>r. Category_ID r = c \<and> P r) (category_rows fl df ps tp c') =
     (if c' = c then filter P (category_rows fl df ps tp c') else [])"
proof -
  from category_rows_shape[of fl df ps tp c'] obtain a b d where
    "category_rows fl df ps tp c' = [a, b, d]"
    "Category_ID a = c'" "Category_ID b = c'" "Category_ID d = c'"
    by blast
  then show ?thesis by auto
qed

lemma Category_ID_total_row: "Category_ID (total_row fl df tp) = ''TOTAL''"
  by (simp add: total_row_def Let_def)

lemma filter_stats:
  assumes "c \<in> {''A'', ''B'', ''C''}"
  shows "filter (\<lambda>r. Category_ID r = c \<and> P r) (calculate_category_stats fl df raw_file) =
           filter P (category_rows fl df (load_raw_data raw_file)
                       (col_sum Frequency_Count df) c)"
  using assms
  by (auto simp: calculate_category_stats_rows filter_category_rows Category_ID_total_row)

lemma last_stats:
  "last (calculate_category_stats fl df raw_file) =
     total_row fl df (col_sum Frequency_Count df)"
  by (simp add: calculate_category_stats_rows)

lemma total_row_fields:
  "out_Frequency_Count (total_row fl df tp) = Num tp \<and>
   out_Frequency_Pct (total_row fl df tp) = ''100%'' \<and>
   Category_ID (total_row fl df tp) = ''TOTAL''"
  by (simp add: total_row_def Let_def)

lemma combined_row:
  "map (\<lambda>r. (out_Frequency_Count r, out_Frequency_Pct r))
     (filter (\<lambda>r. out_Platform r = ''Combined'') (category_rows fl df ps tp c)) =
   [(Num (col_sum Frequency_Count (filter (\<lambda>r. row_Category_id r = c) df)),
     fmt_pct fl
       (if tp > 0
        then NpFloat (fmul fl
               (np_true_div fl
                  (col_sum Frequency_Count (filter (\<lambda>r. row_Category_id r = c) df)) tp)
               (float_of_int fl 100))
        else PyInt 0))]"
  by (simp add: category_rows_def Let_def split del: if_split)

lemma sum_list_indicator:
  "sum_list (map (\<lambda>t. if P t then 1 else 0) ts) = int (length (filter P ts))"
  by (induction ts) simp_all

lemma count_swap:
  "sum_list (map (\<lambda>t. int (length (filter (\<lambda>r. P t r) rs))) ts) =
   sum_list (map (\<lambda>r. int (length (filter (\<lambda>t. P t r) ts))) rs)"
proof (induction rs)
  case Nil
  then show ?case by simp
next
  case (Cons r rs)
  have "sum_list (map (\<lambda>t. int (length (filter (\<lambda>r. P t r) (r # rs)))) ts) =
        sum_list (map (\<lambda>t. (if P t r then 1 else 0)
                              + int (length (filter (\<lambda>r. P t r) rs))) ts)"
    by (rule arg_cong[where f = sum_list]) simp
  also have "\<dots> = sum_list (map (\<lambda>t. if P t r then 1 else 0) ts)
                  + sum_list (map (\<lambda>t. int (length (filter (\<lambda>r. P t r) rs))) ts)"
    by (rule sum_list_addf)
  finally show ?case
    by (simp add: Cons.IH sum_list_indicator)
qed

lemma sum_mention_counts:
  "sum_list (map Frequency_Count (load_and_process_data fl df)) =
   sum_list (map (\<lambda>r. int (length (filter (\<lambda>t. sublist t (Tag_id r)) all_expected_tags)))
     df)"
proof -
  have "map Frequency_Count (load_and_process_data fl df) =
        map (\<lambda>t. int (length (filter (\<lambda>r. sublist t (Tag_id r)) df))) all_expected_tags"
    by (simp add: load_and_process_data_map process_tag_aggregates)
  then have "sum_list (map Frequency_Count (load_and_process_data fl df)) =
        sum_list (map (\<lambda>t. int (length (filter (\<lambda>r. sublist t (Tag_id r)) df)))
          all_expected_tags)"
    by (rule arg_cong)
  also have "\<dots> = sum_list (map (\<lambda>r. int (length (filter (\<lambda>t. sublist t (Tag_id r))
          all_expected_tags))) df)"
    by (rule count_swap)
  finally show ?thesis .
qed

lemma one_code_per_record_total:
  assumes "\<forall>r \<in> set df_raw.
             length (filter (\<lambda>t. sublist t (Tag_id r)) all_expected_tags) = 1"
  shows "sum_list (map Frequency_Count (load_and_process_data fl df_raw)) =
           int (length df_raw)"
proof -
  have "sum_list (map (\<lambda>r. int (length (filter (\<lambda>t. sublist t (Tag_id r))
          all_expected_tags))) df_raw) = sum_list (map (\<lambda>r. 1) df_raw)"
    using assms by (intro arg_cong[where f = sum_list] map_cong) simp_all
  also have "\<dots> = int (length df_raw)"
    by (induction df_raw) simp_all
  finally show ?thesis
    using sum_mention_counts[of fl df_raw] by simp
qed

text \<open>
  C5, as stated, fails: for the single input record whose \<open>Tag_id\<close> is
  \<open>A1,B2\<close> the record counts toward both tags, and the TOTAL row has a count
  of 2 for 1 input record.
\<close>

theorem grand_total_double_count_counterexample:
  "out_Frequency_Count
     (last (calculate_category_stats binary64
        (load_and_process_data binary64
           [\<lparr>Tag_id = ''A1,B2'', Category_id = ''A'', Platform = ''X'',
             Likes = 10, Repost = 1, Replies = 0\<rparr>])
        (Some [\<lparr>Tag_id = ''A1,B2'', Category_id = ''A'', Platform = ''X'',
                Likes = 10, Repost = 1, Replies = 0\<rparr>]))) = Num 2 \<and>
   length [\<lparr>Tag_id = ''A1,B2'', Category_id = ''A'', Platform = ''X'',
            Likes = 10, Repost = 1, Replies = 0\<rparr>] = 1"
proof -
  have "col_sum Frequency_Count
          (load_and_process_data binary64
             [\<lparr>Tag_id = ''A1,B2'', Category_id = ''A'', Platform = ''X'',
               Likes = 10, Repost = 1, Replies = 0\<rparr>]) = 2"
    by code_simp
  then show ?thesis
    by (simp add: last_stats total_row_fields)
qed

text \<open>
  C5, amended: when the \<open>Tag_id\<close> of every input record contains exactly one
  code of the taxonomy, the sum of the counts of all tag rows is the number of
  input records, and the last row of the category-level output, the TOTAL row, has
  that number as its count and \<open>100%\<close> as its percentage.
\<close>

theorem grand_total_row:
  assumes "\<forall>r \<in> set df_raw.
             length (filter (\<lambda>t. sublist t (Tag_id r)) all_expected_tags) = 1"
  shows "Category_ID
           (last (calculate_category_stats fl (load_and_process_data fl df_raw) raw_file))
           = ''TOTAL'' \<and>
         out_Frequency_Count
           (last (calculate_category_stats fl (load_and_process_data fl df_raw) raw_file))
           = Num (int (length df_raw)) \<and>
         out_Frequency_Pct
           (last (calculate_category_stats fl (load_and_process_data fl df_raw) raw_file))
           = ''100%'' \<and>
         sum_list (map Frequency_Count (load_and_process_data fl df_raw)) =
           int (length df_raw)"
  using one_code_per_record_total[OF assms, of fl]
  by (simp add: last_stats total_row_fields col_sum_def)

theorem grand_total_row_witness:
  "out_Frequency_Count
     (last (calculate_category_stats binary64
        (load_and_process_data binary64
           [\<lparr>Tag_id = ''A1'', Category_id = ''A'', Platform = ''X'',
             Likes = 10, Repost = 1, Replies = 0\<rparr>,
            \<lparr>Tag_id = ''B2'', Category_id = ''B'', Platform = ''Truth Social'',
             Likes = 5, Repost = 0, Replies = 1\<rparr>])
        None)) = Num 2 \<and>
   out_Frequency_Pct
     (last (calculate_category_stats binary64
        (load_and_process_data binary64
           [\<lparr>Tag_id = ''A1'', Category_id = ''A'', Platform = ''X'',
             Likes = 10, Repost = 1, Replies = 0\<rparr>,
            \<lparr>Tag_id = ''B2'', Category_id = ''B'', Platform = ''Truth Social'',
             Likes = 5, Repost = 0, Replies = 1\<rparr>])
        None)) = ''100%''"
proof -
  have one: "\<forall>r \<in> set
       [\<lparr>Tag_id = ''A1'', Category_id = ''A'', Platform = ''X'',
         Likes = 10, Repost = 1, Replies = 0\<rparr>,
        \<lparr>Tag_id = ''B2'', Category_id = ''B'', Platform = ''Truth Social'',
         Likes = 5, Repost = 0, Replies = 1\<rparr>].
      length (filter (\<lambda>t. sublist t (Tag_id r)) all_expected_tags) = 1"
    by (simp add: all_expected_tags_def sublist_Cons_right)
  from grand_total_row[OF one, of binary64 None] show ?thesis
    by simp
qed

text \<open>
  C4, as stated, fails: for the single input record whose \<open>Tag_id\<close> is
  \<open>A1,B2\<close>, the Combined row of category A has a count of 1 and shows
  \<open>50.00%\<close>, where the count over the number of input records times 100 is
  \<open>100.00%\<close>: the denominator is the sum of the tag counts, here 2.
\<close>

theorem category_combined_frequency_counterexample:
  "map (\<lambda>r. (out_Frequency_Count r, out_Frequency_Pct r))
     (filter (\<lambda>r. Category_ID r = ''A'' \<and> out_Platform r = ''Combined'')
        (calculate_category_stats binary64
           (load_and_process_data binary64
              [\<lparr>Tag_id = ''A1,B2'', Category_id = ''A'', Platform = ''X'',
                Likes = 10, Repost = 0, Replies = 0\<rparr>])
           (Some [\<lparr>Tag_id = ''A1,B2'', Category_id = ''A'', Platform = ''X'',
                   Likes = 10, Repost = 0, Replies = 0\<rparr>]))) =
   [(Num 1, ''50.00%'')] \<and>
   fmt_pct binary64
     (NpFloat (fmul binary64
        (np_true_div binary64 1
           (int (length [\<lparr>Tag_id = ''A1,B2'', Category_id = ''A'', Platform = ''X'',
                          Likes = 10, Repost = 0, Replies = 0\<rparr>])))
        (float_of_int binary64 100))) = ''100.00%''"
proof -
  let ?raw = "[\<lparr>Tag_id = ''A1,B2'', Category_id = ''A'', Platform = ''X'',
                Likes = 10, Repost = 0, Replies = 0\<rparr>]"
  have a: "''A'' \<in> {''A'', ''B'', ''C''}"
    by simp
  have cf: "col_sum Frequency_Count
              (filter (\<lambda>r. row_Category_id r = ''A'') (load_and_process_data binary64 ?raw))
            = 1"
    by code_simp
  have tp: "col_sum Frequency_Count (load_and_process_data binary64 ?raw) = 2"
    by code_simp
  have half: "fmt_pct binary64
                (NpFloat (fmul binary64 (np_true_div binary64 1 2) (float_of_int binary64 100)))
              = ''50.00%''"
    by code_simp
  have whole: "fmt_pct binary64
                 (NpFloat (fmul binary64 (np_true_div binary64 1 1) (float_of_int binary64 100)))
               = ''100.00%''"
    by code_simp
  have "map (\<lambda>r. (out_Frequency_Count r, out_Frequency_Pct r))
     (filter (\<lambda>r. Category_ID r = ''A'' \<and> out_Platform r = ''Combined'')
        (calculate_category_stats binary64 (load_and_process_data binary64 ?raw)
           (Some ?raw))) = [(Num 1, ''50.00%'')]"
    unfolding filter_stats[OF a] combined_row cf tp by (simp add: half)
  then show ?thesis
    using whole by simp
qed

text \<open>
  C4, amended: for each of the categories A, B and C the category-level output has
  exactly one Combined row. Its frequency count is the sum of the counts of the tag
  rows of that category, and its percentage field is the format of that sum divided
  by the count of the TOTAL row, times 100 (of the integer 0 when that count is not
  positive). The count of the TOTAL row is the sum of the counts of all tag rows; it
  is the number of input records when the \<open>Tag_id\<close> of every input record contains
  exactly one code of the taxonomy.
\<close>

theorem category_combined_frequency:
  assumes cat: "c \<in> {''A'', ''B'', ''C''}"
  shows "map (\<lambda>r. (out_Frequency_Count r, out_Frequency_Pct r))
           (filter (\<lambda>r. Category_ID r = c \<and> out_Platform r = ''Combined'')
              (calculate_category_stats fl df raw_file)) =
         [(Num (sum_list (map Frequency_Count (filter (\<lambda>r. row_Category_id r = c) df))),
           fmt_pct fl
             (if 0 < sum_list (map Frequency_Count df)
              then NpFloat (fmul fl
                     (np_true_div fl
                        (sum_list (map Frequency_Count
                           (filter (\<lambda>r. row_Category_id r = c) df)))
                        (sum_list (map Frequency_Count df)))
                     (float_of_int fl 100))
              else PyInt 0))] \<and>
         out_Frequency_Count (last (calculate_category_stats fl df raw_file)) =
           Num (sum_list (map Frequency_Count df)) \<and>
         ((\<forall>r \<in> set df_raw.
             length (filter (\<lambda>t. sublist t (Tag_id r)) all_expected_tags) = 1) \<longrightarrow>
          sum_list (map Frequency_Count (load_and_process_data fl df_raw)) =
            int (length df_raw))"
proof (intro conjI impI)
  show "map (\<lambda>r. (out_Frequency_Count r, out_Frequency_Pct r))
           (filter (\<lambda>r. Category_ID r = c \<and> out_Platform r = ''Combined'')
              (calculate_category_stats fl df raw_file)) =
         [(Num (sum_list (map Frequency_Count (filter (\<lambda>r. row_Category_id r = c) df))),
           fmt_pct fl
             (if 0 < sum_list (map Frequency_Count df)
              then NpFloat (fmul fl
                     (np_true_div fl
                        (sum_list (map Frequency_Count
                           (filter (\<lambda>r. row_Category_id r = c) df)))
                        (sum_list (map Frequency_Count df)))
                     (float_of_int fl 100))
              else PyInt 0))]"
    unfolding filter_stats[OF cat] combined_row col_sum_def by (rule refl)
  show "out_Frequency_Count (last (calculate_category_stats fl df raw_file)) =
           Num (sum_list (map Frequency_Count df))"
    by (simp add: last_stats total_row_fields col_sum_def)
next
  assume "\<forall>r \<in> set df_raw.
            length (filter (\<lambda>t. sublist t (Tag_id r)) all_expected_tags) = 1"
  then show "sum_list (map Frequency_Count (load_and_process_data fl df_raw)) =
               int (length df_raw)"
    by (rule one_code_per_record_total)
qed

theorem category_combined_frequency_witness:
  "map (\<lambda>r. (out_Frequency_Count r, out_Frequency_Pct r))
     (filter (\<lambda>r. Category_ID r = ''A'' \<and> out_Platform r = ''Combined'')
        (calculate_category_stats binary64
           (load_and_process_data binary64
              [\<lparr>Tag_id = ''A1'', Category_id = ''A'', Platform = ''X'',
                Likes = 10, Repost = 1, Replies = 0\<rparr>,
               \<lparr>Tag_id = ''B2'', Category_id = ''B'', Platform = ''Truth Social'',
                Likes = 5, Repost = 0, Replies = 1\<rparr>])
           None)) =
   [(Num 1, ''50.00%'')] \<and>
   sum_list (map Frequency_Count
     (load_and_process_data binary64
        [\<lparr>Tag_id = ''A1'', Category_id = ''A'', Platform = ''X'',
          Likes = 10, Repost = 1, Replies = 0\<rparr>,
         \<lparr>Tag_id = ''B2'', Category_id = ''B'', Platform = ''Truth Social'',
          Likes = 5, Repost = 0, Replies = 1\<rparr>])) = 2"
proof -
  let ?raw = "[\<lparr>Tag_id = ''A1'', Category_id = ''A'', Platform = ''X'',
                Likes = 10, Repost = 1, Replies = 0\<rparr>,
               \<lparr>Tag_id = ''B2'', Category_id = ''B'', Platform = ''Truth Social'',
                Likes = 5, Repost = 0, Replies = 1\<rparr>]"
  have cat: "''A'' \<in> {''A'', ''B'', ''C''}"
    by simp
  have one: "\<forall>r \<in> set ?raw.
      length (filter (\<lambda>t. sublist t (Tag_id r)) all_expected_tags) = 1"
    by (simp add: all_expected_tags_def sublist_Cons_right)
  have cf: "sum_list (map Frequency_Count
              (filter (\<lambda>r. row_Category_id r = ''A'') (load_and_process_data binary64 ?raw)))
            = 1"
    by code_simp
  have half: "fmt_pct binary64
                (NpFloat (fmul binary64 (np_true_div binary64 1 2) (float_of_int binary64 100)))
              = ''50.00%''"
    by code_simp
  note inst = category_combined_frequency[OF cat, of binary64
      "load_and_process_data binary64 ?raw" None ?raw]
  from inst one have total: "sum_list (map Frequency_Count
      (load_and_process_data binary64 ?raw)) = 2"
    by simp
  from inst show ?thesis
    unfolding cf total by (simp add: half)
qed

lemma x_row_fields:
  "map (\<lambda>r. (out_Frequency_Count r, out_Frequency_Pct r, out_Total_Engagement r,
              out_Average_Engagement r))
     (filter (\<lambda>r. out_Platform r = ''X'') (category_rows fl df ps tp c)) =
   [(let f = platform_frequency ps ''X'' c X_Total_Engagement
               (filter (\<lambda>r. row_Category_id r = c) df);
         te = col_sum X_Total_Engagement (filter (\<lambda>r. row_Category_id r = c) df);
         avg = (if f > 0 then NpFloat (np_true_div fl te f) else PyInt 0)
     in (if f > 0 then Num f else Str [],
         if f > 0
         then fmt_pct fl
                (if tp > 0
                 then NpFloat (fmul fl (np_true_div fl f tp) (float_of_int fl 100))
                 else PyInt 0)
         else [],
         if te > 0 then fmt_thousands te else [],
         if positive fl avg then fmt_avg fl avg else []))]"
  by (simp add: category_rows_def Let_def split del: if_split)

lemma truth_row_fields:
  "map (\<lambda>r. (out_Frequency_Count r, out_Frequency_Pct r, out_Total_Engagement r,
              out_Average_Engagement r))
     (filter (\<lambda>r. out_Platform r = ''Truth Social'') (category_rows fl df ps tp c)) =
   [(let f = platform_frequency ps ''Truth Social'' c Truth_Total_Engagement
               (filter (\<lambda>r. row_Category_id r = c) df);
         te = col_sum Truth_Total_Engagement (filter (\<lambda>r. row_Category_id r = c) df);
         avg = (if f > 0 then NpFloat (np_true_div fl te f) else PyInt 0)
     in (if f > 0 then Num f else Str [],
         if f > 0
         then fmt_pct fl
                (if tp > 0
                 then NpFloat (fmul fl (np_true_div fl f tp) (float_of_int fl 100))
                 else PyInt 0)
         else [],
         if te > 0 then fmt_thousands te else [],
         if positive fl avg then fmt_avg fl avg else []))]"
  by (simp add: category_rows_def Let_def split del: if_split)

lemma average_gate:
  "(if positive fl (if (0::int) < f then NpFloat (np_true_div fl te f) else PyInt 0)
    then fmt_avg fl (if 0 < f then NpFloat (np_true_div fl te f) else PyInt 0) else []) =
   (if 0 < f \<and> fpos fl (np_true_div fl te f) then fmt0 fl (np_true_div fl te f) else [])"
  by (simp add: positive_def fmt_avg_def as_float_def)

lemma show_int_nonempty: "show_int n \<noteq> []"
  by (subst show_int.simps) simp

lemma group3_nonempty: "ds \<noteq> [] \<Longrightarrow> group3 ds \<noteq> []"
  by (cases ds rule: group3.cases) simp_all

lemma fmt_nonempty:
  "fmt_pct fl x \<noteq> [] \<and> fmt_thousands n \<noteq> [] \<and> fmt0 binary64 y \<noteq> []"
  by (simp add: fmt_pct_def fmt_thousands_def binary64_def grouped0_def group3_nonempty
      show_int_nonempty)

text \<open>
  C7, as stated, fails in both directions. For one X record tagged \<open>A1,B2\<close> with
  category A, the X row of category B has no records (count and percentage are
  empty) and yet shows a total engagement of 10. For one X record of category A with
  no engagement, the X row of category A has a count of 1 and yet its total and
  average engagement are empty.
\<close>

theorem platform_row_rendering_counterexample:
  "map (\<lambda>r. (out_Frequency_Count r, out_Frequency_Pct r, out_Total_Engagement r,
              out_Average_Engagement r))
     (filter (\<lambda>r. Category_ID r = ''B'' \<and> out_Platform r = ''X'')
        (calculate_category_stats binary64
           (load_and_process_data binary64
              [\<lparr>Tag_id = ''A1,B2'', Category_id = ''A'', Platform = ''X'',
        Likes = 10, Repost = 0, Replies = 0\<rparr>])
           (Some [\<lparr>Tag_id = ''A1,B2'', Category_id = ''A'', Platform = ''X'',
        Likes = 10, Repost = 0, Replies = 0\<rparr>]))) =
   [(Str [], [], ''10'', [])] \<and>
   map (\<lambda>r. (out_Frequency_Count r, out_Frequency_Pct r, out_Total_Engagement r,
              out_Average_Engagement r))
     (filter (\<lambda>r. Category_ID r = ''A'' \<and> out_Platform r = ''X'')
        (calculate_category_stats binary64
           (load_and_process_data binary64
              [\<lparr>Tag_id = ''A1'', Category_id = ''A'', Platform = ''X'',
        Likes = 0, Repost = 0, Replies = 0\<rparr>])
           (Some [\<lparr>Tag_id = ''A1'', Category_id = ''A'', Platform = ''X'',
        Likes = 0, Repost = 0, Replies = 0\<rparr>]))) =
   [(Num 1, ''100.00%'', [], [])]"
proof -
  let ?raw1 = "[\<lparr>Tag_id = ''A1,B2'', Category_id = ''A'', Platform = ''X'',
        Likes = 10, Repost = 0, Replies = 0\<rparr>]"
  let ?raw2 = "[\<lparr>Tag_id = ''A1'', Category_id = ''A'', Platform = ''X'',
        Likes = 0, Repost = 0, Replies = 0\<rparr>]"
  let ?df1 = "load_and_process_data binary64 ?raw1"
  let ?df2 = "load_and_process_data binary64 ?raw2"
  have f1: "platform_frequency (load_raw_data (Some ?raw1)) ''X'' ''B'' X_Total_Engagement
              (filter (\<lambda>r. row_Category_id r = ''B'') ?df1) = 0"
    by code_simp
  have t1: "col_sum X_Total_Engagement (filter (\<lambda>r. row_Category_id r = ''B'') ?df1) = 10"
    by code_simp
  have f2: "platform_frequency (load_raw_data (Some ?raw2)) ''X'' ''A'' X_Total_Engagement
              (filter (\<lambda>r. row_Category_id r = ''A'') ?df2) = 1"
    by code_simp
  have t2: "col_sum X_Total_Engagement (filter (\<lambda>r. row_Category_id r = ''A'') ?df2) = 0"
    by code_simp
  have p2: "col_sum Frequency_Count ?df2 = 1"
    by code_simp
  have ten: "fmt_thousands 10 = ''10''"
    by code_simp
  have hundred: "fmt_pct binary64
                   (NpFloat (fmul binary64 (np_true_div binary64 1 1)
                      (float_of_int binary64 100))) = ''100.00%''"
    by code_simp
  have zero: "\<not> fpos binary64 (np_true_div binary64 0 1)"
    by code_simp
  have b: "''B'' \<in> {''A'', ''B'', ''C''}" and a: "''A'' \<in> {''A'', ''B'', ''C''}"
    by simp_all
  have first: "map (\<lambda>r. (out_Frequency_Count r, out_Frequency_Pct r,
                          out_Total_Engagement r, out_Average_Engagement r))
     (filter (\<lambda>r. Category_ID r = ''B'' \<and> out_Platform r = ''X'')
        (calculate_category_stats binary64 ?df1 (Some ?raw1))) =
     [(Str [], [], ''10'', [])]"
    unfolding filter_stats[OF b] x_row_fields f1 t1 Let_def average_gate
    by (simp add: ten)
  have second: "map (\<lambda>r. (out_Frequency_Count r, out_Frequency_Pct r,
                           out_Total_Engagement r, out_Average_Engagement r))
     (filter (\<lambda>r. Category_ID r = ''A'' \<and> out_Platform r = ''X'')
        (calculate_category_stats binary64 ?df2 (Some ?raw2))) =
     [(Num 1, ''100.00%'', [], [])]"
    unfolding filter_stats[OF a] x_row_fields f2 t2 p2 Let_def average_gate
    by (simp add: hundred zero)
  from first second show ?thesis
    by (rule conjI)
qed

text \<open>
  C7, amended: for each category and each of the platforms X and Truth Social, the
  category-level output has one row, and each field of it is gated on its own value.
  The count and the percentage are empty when the platform frequency is not positive
  and carry the count and the formatted percentage otherwise; the total engagement
  is empty when the platform total engagement is not positive and carries it
  otherwise; the average engagement is empty unless the frequency is positive and the
  quotient of the total by the frequency is positive, and is then the format of that
  quotient. A percentage, a total and, in double precision, an average are never
  rendered as the empty string.
\<close>

theorem platform_row_rendering:
  fixes fl :: "'f float_ops" and df :: "'f tag_row list"
    and raw_file :: "raw_record list option" and c :: string
  defines "tp \<equiv> sum_list (map Frequency_Count df)"
    and "xf \<equiv> platform_frequency (load_raw_data raw_file) ''X'' c X_Total_Engagement
                 (filter (\<lambda>r. row_Category_id r = c) df)"
    and "xt \<equiv> sum_list (map X_Total_Engagement (filter (\<lambda>r. row_Category_id r = c) df))"
    and "tf \<equiv> platform_frequency (load_raw_data raw_file) ''Truth Social'' c
                 Truth_Total_Engagement (filter (\<lambda>r. row_Category_id r = c) df)"
    and "tt \<equiv> sum_list (map Truth_Total_Engagement
                 (filter (\<lambda>r. row_Category_id r = c) df))"
  assumes cat: "c \<in> {''A'', ''B'', ''C''}"
  shows "map (\<lambda>r. (out_Frequency_Count r, out_Frequency_Pct r, out_Total_Engagement r,
                    out_Average_Engagement r))
           (filter (\<lambda>r. Category_ID r = c \<and> out_Platform r = ''X'')
              (calculate_category_stats fl df raw_file)) =
         [(if 0 < xf then Num xf else Str [],
           if 0 < xf
           then fmt_pct fl
                  (if 0 < tp
                   then NpFloat (fmul fl (np_true_div fl xf tp) (float_of_int fl 100))
                   else PyInt 0)
           else [],
           if 0 < xt then fmt_thousands xt else [],
           if 0 < xf \<and> fpos fl (np_true_div fl xt xf)
           then fmt0 fl (np_true_div fl xt xf) else [])] \<and>
         map (\<lambda>r. (out_Frequency_Count r, out_Frequency_Pct r, out_Total_Engagement r,
                    out_Average_Engagement r))
           (filter (\<lambda>r. Category_ID r = c \<and> out_Platform r = ''Truth Social'')
              (calculate_category_stats fl df raw_file)) =
         [(if 0 < tf then Num tf else Str [],
           if 0 < tf
           then fmt_pct fl
                  (if 0 < tp
                   then NpFloat (fmul fl (np_true_div fl tf tp) (float_of_int fl 100))
                   else PyInt 0)
           else [],
           if 0 < tt then fmt_thousands tt else [],
           if 0 < tf \<and> fpos fl (np_true_div fl tt tf)
           then fmt0 fl (np_true_div fl tt tf) else [])] \<and>
         fmt_pct fl x \<noteq> [] \<and> fmt_thousands n \<noteq> [] \<and> fmt0 binary64 y \<noteq> []"
proof -
  note rows = x_row_fields[of fl df "load_raw_data raw_file" "col_sum Frequency_Count df" c]
    truth_row_fields[of fl df "load_raw_data raw_file" "col_sum Frequency_Count df" c]
  show ?thesis
    using rows fmt_nonempty[of fl x n y]
    unfolding filter_stats[OF cat] tp_def xf_def xt_def tf_def tt_def Let_def
      average_gate col_sum_def
    by (simp split del: if_split cong: if_cong)
qed

theorem platform_row_rendering_witness:
  "map (\<lambda>r. (out_Frequency_Count r, out_Frequency_Pct r, out_Total_Engagement r,
              out_Average_Engagement r))
     (filter (\<lambda>r. Category_ID r = ''A'' \<and> out_Platform r = ''X'')
        (calculate_category_stats binary64
           [\<lparr>row_Tag_id = ''A1'', row_Category_id = ''A'', Frequency_Count = 1,
        Frequency_Pct = 50, Total_Likes = 30, Total_Reposts = 3,
        Total_Comments = 1, Total_Engagement = 34, X_Total_Engagement = 34,
        Truth_Total_Engagement = 0, Average_Engagement = 34,
        X_Average_Engagement = 34, Truth_Average_Engagement = 0\<rparr>,
       \<lparr>row_Tag_id = ''B2'', row_Category_id = ''B'', Frequency_Count = 1,
        Frequency_Pct = 50, Total_Likes = 5, Total_Reposts = 0,
        Total_Comments = 1, Total_Engagement = 6, X_Total_Engagement = 6,
        Truth_Total_Engagement = 0, Average_Engagement = 6,
        X_Average_Engagement = 6, Truth_Average_Engagement = 0\<rparr>]
           (Some [\<lparr>Tag_id = ''A1'', Category_id = ''A'', Platform = ''X'',
        Likes = 30, Repost = 3, Replies = 1\<rparr>,
       \<lparr>Tag_id = ''B2'', Category_id = ''B'', Platform = ''X'',
        Likes = 5, Repost = 0, Replies = 1\<rparr>]))) =
   [(Num 1, ''50.00%'', ''34'', ''34'')] \<and>
   map (\<lambda>r. (out_Frequency_Count r, out_Frequency_Pct r, out_Total_Engagement r,
              out_Average_Engagement r))
     (filter (\<lambda>r. Category_ID r = ''A'' \<and> out_Platform r = ''Truth Social'')
        (calculate_category_stats binary64
           [\<lparr>row_Tag_id = ''A1'', row_Category_id = ''A'', Frequency_Count = 1,
        Frequency_Pct = 50, Total_Likes = 30, Total_Reposts = 3,
        Total_Comments = 1, Total_Engagement = 34, X_Total_Engagement = 34,
        Truth_Total_Engagement = 0, Average_Engagement = 34,
        X_Average_Engagement = 34, Truth_Average_Engagement = 0\<rparr>,
       \<lparr>row_Tag_id = ''B2'', row_Category_id = ''B'', Frequency_Count = 1,
        Frequency_Pct = 50, Total_Likes = 5, Total_Reposts = 0,
        Total_Comments = 1, Total_Engagement = 6, X_Total_Engagement = 6,
        Truth_Total_Engagement = 0, Average_Engagement = 6,
        X_Average_Engagement = 6, Truth_Average_Engagement = 0\<rparr>]
           (Some [\<lparr>Tag_id = ''A1'', Category_id = ''A'', Platform = ''X'',
        Likes = 30, Repost = 3, Replies = 1\<rparr>,
       \<lparr>Tag_id = ''B2'', Category_id = ''B'', Platform = ''X'',
        Likes = 5, Repost = 0, Replies = 1\<rparr>]))) =
   [(Str [], [], [], [])]"
proof -
  let ?df = "[\<lparr>row_Tag_id = ''A1'', row_Category_id = ''A'', Frequency_Count = 1,
        Frequency_Pct = 50, Total_Likes = 30, Total_Reposts = 3,
        Total_Comments = 1, Total_Engagement = 34, X_Total_Engagement = 34,
        Truth_Total_Engagement = 0, Average_Engagement = 34,
        X_Average_Engagement = 34, Truth_Average_Engagement = 0\<rparr>,
       \<lparr>row_Tag_id = ''B2'', row_Category_id = ''B'', Frequency_Count = 1,
        Frequency_Pct = 50, Total_Likes = 5, Total_Reposts = 0,
        Total_Comments = 1, Total_Engagement = 6, X_Total_Engagement = 6,
        Truth_Total_Engagement = 0, Average_Engagement = 6,
        X_Average_Engagement = 6, Truth_Average_Engagement = 0\<rparr>]"
  let ?raw = "[\<lparr>Tag_id = ''A1'', Category_id = ''A'', Platform = ''X'',
        Likes = 30, Repost = 3, Replies = 1\<rparr>,
       \<lparr>Tag_id = ''B2'', Category_id = ''B'', Platform = ''X'',
        Likes = 5, Repost = 0, Replies = 1\<rparr>]"
  have cat: "''A'' \<in> {''A'', ''B'', ''C''}"
    by simp
  have xf: "platform_frequency (load_raw_data (Some ?raw)) ''X'' ''A'' X_Total_Engagement
              (filter (\<lambda>r. row_Category_id r = ''A'') ?df) = 1"
    by code_simp
  have tf: "platform_frequency (load_raw_data (Some ?raw)) ''Truth Social'' ''A''
              Truth_Total_Engagement (filter (\<lambda>r. row_Category_id r = ''A'') ?df) = 0"
    by code_simp
  have pct: "fmt_pct binary64
               (NpFloat (fmul binary64 (np_true_div binary64 1 2) (float_of_int binary64 100)))
             = ''50.00%''"
    by code_simp
  have total: "fmt_thousands 34 = ''34''"
    by code_simp
  have pos: "fpos binary64 (np_true_div binary64 34 1)"
    by code_simp
  have avg: "fmt0 binary64 (np_true_div binary64 34 1) = ''34''"
    by code_simp
  from platform_row_rendering[OF cat, where fl = binary64 and df = ?df
      and raw_file = "Some ?raw"]
  show ?thesis
    unfolding xf tf by (simp add: pct total pos avg)
qed

lemma platform_frequency_missing_raw:
  "platform_frequency (load_raw_data None) platform c col cd =
     int (length (filter (\<lambda>r. 0 < col r) cd))"
  by (simp add: platform_frequency_def load_raw_data_def)

lemma x_row_count:
  "map out_Frequency_Count
     (filter (\<lambda>r. out_Platform r = ''X'') (category_rows fl df ps tp c)) =
   [if 0 < platform_frequency ps ''X'' c X_Total_Engagement
             (filter (\<lambda>r. row_Category_id r = c) df)
    then Num (platform_frequency ps ''X'' c X_Total_Engagement
                (filter (\<lambda>r. row_Category_id r = c) df))
    else Str []]"
  by (simp add: category_rows_def Let_def split del: if_split)

lemma truth_row_count:
  "map out_Frequency_Count
     (filter (\<lambda>r. out_Platform r = ''Truth Social'') (category_rows fl df ps tp c)) =
   [if 0 < platform_frequency ps ''Truth Social'' c Truth_Total_Engagement
             (filter (\<lambda>r. row_Category_id r = c) df)
    then Num (platform_frequency ps ''Truth Social'' c Truth_Total_Engagement
                (filter (\<lambda>r. row_Category_id r = c) df))
    else Str []]"
  by (simp add: category_rows_def Let_def split del: if_split)

text \<open>
  C6, as stated, fails: with the processed file present and the raw file missing,
  the category-level script still writes its rows, and the X row of category A
  shows the estimated count 1 (the tag rows of the category with positive X
  engagement) where the raw file would have given the count 2.
\<close>

theorem missing_raw_file_counterexample:
  "main_overall binary64
     (Some [\<lparr>row_Tag_id = ''A1'', row_Category_id = ''A'', Frequency_Count = 2,
        Frequency_Pct = 100, Total_Likes = 30, Total_Reposts = 3,
        Total_Comments = 1, Total_Engagement = 34, X_Total_Engagement = 34,
        Truth_Total_Engagement = 0, Average_Engagement = 17,
        X_Average_Engagement = 17, Truth_Average_Engagement = 0\<rparr>])
     None =
   Some (calculate_category_stats binary64
     [\<lparr>row_Tag_id = ''A1'', row_Category_id = ''A'', Frequency_Count = 2,
        Frequency_Pct = 100, Total_Likes = 30, Total_Reposts = 3,
        Total_Comments = 1, Total_Engagement = 34, X_Total_Engagement = 34,
        Truth_Total_Engagement = 0, Average_Engagement = 17,
        X_Average_Engagement = 17, Truth_Average_Engagement = 0\<rparr>]
     None) \<and>
   map out_Frequency_Count
     (filter (\<lambda>r. Category_ID r = ''A'' \<and> out_Platform r = ''X'')
        (calculate_category_stats binary64
           [\<lparr>row_Tag_id = ''A1'', row_Category_id = ''A'', Frequency_Count = 2,
        Frequency_Pct = 100, Total_Likes = 30, Total_Reposts = 3,
        Total_Comments = 1, Total_Engagement = 34, X_Total_Engagement = 34,
        Truth_Total_Engagement = 0, Average_Engagement = 17,
        X_Average_Engagement = 17, Truth_Average_Engagement = 0\<rparr>]
           None)) = [Num 1] \<and>
   map out_Frequency_Count
     (filter (\<lambda>r. Category_ID r = ''A'' \<and> out_Platform r = ''X'')
        (calculate_category_stats binary64
           [\<lparr>row_Tag_id = ''A1'', row_Category_id = ''A'', Frequency_Count = 2,
        Frequency_Pct = 100, Total_Likes = 30, Total_Reposts = 3,
        Total_Comments = 1, Total_Engagement = 34, X_Total_Engagement = 34,
        Truth_Total_Engagement = 0, Average_Engagement = 17,
        X_Average_Engagement = 17, Truth_Average_Engagement = 0\<rparr>]
           (Some [\<lparr>Tag_id = ''A1'', Category_id = ''A'', Platform = ''X'',
        Likes = 10, Repost = 1, Replies = 0\<rparr>,
       \<lparr>Tag_id = ''A1'', Category_id = ''A'', Platform = ''X'',
        Likes = 20, Repost = 2, Replies = 1\<rparr>]))) = [Num 2]"
proof -
  let ?df = "[\<lparr>row_Tag_id = ''A1'', row_Category_id = ''A'', Frequency_Count = 2,
        Frequency_Pct = 100, Total_Likes = 30, Total_Reposts = 3,
        Total_Comments = 1, Total_Engagement = 34, X_Total_Engagement = 34,
        Truth_Total_Engagement = 0, Average_Engagement = 17,
        X_Average_Engagement = 17, Truth_Average_Engagement = 0\<rparr>]"
  let ?raw = "[\<lparr>Tag_id = ''A1'', Category_id = ''A'', Platform = ''X'',
        Likes = 10, Repost = 1, Replies = 0\<rparr>,
       \<lparr>Tag_id = ''A1'', Category_id = ''A'', Platform = ''X'',
        Likes = 20, Repost = 2, Replies = 1\<rparr>]"
  have a: "''A'' \<in> {''A'', ''B'', ''C''}"
    by simp
  have est: "platform_frequency (load_raw_data None) ''X'' ''A'' X_Total_Engagement
               (filter (\<lambda>r. row_Category_id r = ''A'') ?df) = 1"
    by (simp add: platform_frequency_missing_raw)
  have cnt: "platform_frequency (load_raw_data (Some ?raw)) ''X'' ''A'' X_Total_Engagement
               (filter (\<lambda>r. row_Category_id r = ''A'') ?df) = 2"
    by code_simp
  have run: "main_overall binary64 (Some ?df) None = Some (calculate_category_stats binary64 ?df None)"
    by (simp add: main_overall_def load_processed_data_def)
  have missing: "map out_Frequency_Count
     (filter (\<lambda>r. Category_ID r = ''A'' \<and> out_Platform r = ''X'')
        (calculate_category_stats binary64 ?df None)) = [Num 1]"
    unfolding filter_stats[OF a] x_row_count est by simp
  have present: "map out_Frequency_Count
     (filter (\<lambda>r. Category_ID r = ''A'' \<and> out_Platform r = ''X'')
        (calculate_category_stats binary64 ?df (Some ?raw))) = [Num 2]"
    unfolding filter_stats[OF a] x_row_count cnt by simp
  from run missing present show ?thesis
    by (intro conjI)
qed

text \<open>
  C6, amended: the tag-level script writes nothing when its raw file is missing,
  and the category-level script writes nothing when the processed file is missing.
  When the processed file is present and only the raw file is missing, the
  category-level script writes its rows, and the X and Truth Social counts of a
  category are the number of the category's tag rows whose total engagement on
  that platform is positive (empty when that number is zero).
\<close>

theorem missing_input_files:
  assumes cat: "c \<in> {''A'', ''B'', ''C''}"
  shows "main_processor fl None = None \<and>
         main_overall fl None raw_file = None \<and>
         main_overall fl (Some df) None = Some (calculate_category_stats fl df None) \<and>
         map out_Frequency_Count
           (filter (\<lambda>r. Category_ID r = c \<and> out_Platform r = ''X'')
              (calculate_category_stats fl df None)) =
           [if 0 < length (filter (\<lambda>r. 0 < X_Total_Engagement r)
                     (filter (\<lambda>r. row_Category_id r = c) df))
            then Num (int (length (filter (\<lambda>r. 0 < X_Total_Engagement r)
                     (filter (\<lambda>r. row_Category_id r = c) df))))
            else Str []] \<and>
         map out_Frequency_Count
           (filter (\<lambda>r. Category_ID r = c \<and> out_Platform r = ''Truth Social'')
              (calculate_category_stats fl df None)) =
           [if 0 < length (filter (\<lambda>r. 0 < Truth_Total_Engagement r)
                     (filter (\<lambda>r. row_Category_id r = c) df))
            then Num (int (length (filter (\<lambda>r. 0 < Truth_Total_Engagement r)
                     (filter (\<lambda>r. row_Category_id r = c) df))))
            else Str []]"
proof (intro conjI)
  show "main_processor fl None = None"
    by (simp add: main_processor_def)
  show "main_overall fl None raw_file = None"
    by (simp add: main_overall_def load_processed_data_def)
  show "main_overall fl (Some df) None = Some (calculate_category_stats fl df None)"
    by (simp add: main_overall_def load_processed_data_def)
  show "map out_Frequency_Count
           (filter (\<lambda>r. Category_ID r = c \<and> out_Platform r = ''X'')
              (calculate_category_stats fl df None)) =
           [if 0 < length (filter (\<lambda>r. 0 < X_Total_Engagement r)
                     (filter (\<lambda>r. row_Category_id r = c) df))
            then Num (int (length (filter (\<lambda>r. 0 < X_Total_Engagement r)
                     (filter (\<lambda>r. row_Category_id r = c) df))))
            else Str []]"
    unfolding filter_stats[OF cat] x_row_count platform_frequency_missing_raw by simp
  show "map out_Frequency_Count
           (filter (\<lambda>r. Category_ID r = c \<and> out_Platform r = ''Truth Social'')
              (calculate_category_stats fl df None)) =
           [if 0 < length (filter (\<lambda>r. 0 < Truth_Total_Engagement r)
                     (filter (\<lambda>r. row_Category_id r = c) df))
            then Num (int (length (filter (\<lambda>r. 0 < Truth_Total_Engagement r)
                     (filter (\<lambda>r. row_Category_id r = c) df))))
            else Str []]"
    unfolding filter_stats[OF cat] truth_row_count platform_frequency_missing_raw by simp
qed

theorem missing_input_files_witness:
  "''A'' \<in> {''A'', ''B'', ''C''} \<and>
   main_overall binary64 None (Some [\<lparr>Tag_id = ''A1'', Category_id = ''A'', Platform = ''X'',
        Likes = 10, Repost = 1, Replies = 0\<rparr>,
       \<lparr>Tag_id = ''A1'', Category_id = ''A'', Platform = ''X'',
        Likes = 20, Repost = 2, Replies = 1\<rparr>]) = None \<and>
   map out_Frequency_Count
     (filter (\<lambda>r. Category_ID r = ''A'' \<and> out_Platform r = ''X'')
        (calculate_category_stats binary64
           [\<lparr>row_Tag_id = ''A1'', row_Category_id = ''A'', Frequency_Count = 2,
        Frequency_Pct = 100, Total_Likes = 30, Total_Reposts = 3,
        Total_Comments = 1, Total_Engagement = 34, X_Total_Engagement = 34,
        Truth_Total_Engagement = 0, Average_Engagement = 17,
        X_Average_Engagement = 17, Truth_Average_Engagement = 0\<rparr>]
           None)) = [Num 1] \<and>
   map out_Frequency_Count
     (filter (\<lambda>r. Category_ID r = ''A'' \<and> out_Platform r = ''Truth Social'')
        (calculate_category_stats binary64
           [\<lparr>row_Tag_id = ''A1'', row_Category_id = ''A'', Frequency_Count = 2,
        Frequency_Pct = 100, Total_Likes = 30, Total_Reposts = 3,
        Total_Comments = 1, Total_Engagement = 34, X_Total_Engagement = 34,
        Truth_Total_Engagement = 0, Average_Engagement = 17,
        X_Average_Engagement = 17, Truth_Average_Engagement = 0\<rparr>]
           None)) = [Str []]"
proof -
  have cat: "''A'' \<in> {''A'', ''B'', ''C''}"
    by simp
  from missing_input_files[OF cat, of binary64 "Some [\<lparr>Tag_id = ''A1'', Category_id = ''A'', Platform = ''X'',
        Likes = 10, Repost = 1, Replies = 0\<rparr>,
       \<lparr>Tag_id = ''A1'', Category_id = ''A'', Platform = ''X'',
        Likes = 20, Repost = 2, Replies = 1\<rparr>]"
      "[\<lparr>row_Tag_id = ''A1'', row_Category_id = ''A'', Frequency_Count = 2,
        Frequency_Pct = 100, Total_Likes = 30, Total_Reposts = 3,
        Total_Comments = 1, Total_Engagement = 34, X_Total_Engagement = 34,
        Truth_Total_Engagement = 0, Average_Engagement = 17,
        X_Average_Engagement = 17, Truth_Average_Engagement = 0\<rparr>]"]
  show ?thesis by simp
qed


end
